theory Spec2Isabelle
  imports Main "HOL-Library.Sublist" "HOL-Library.Product_Lexorder"
begin

section \<open>Python helpers\<close>

text \<open>
  Strings are \<^typ>\<open>string\<close>. \<open>str.lower()\<close> is modelled on the ASCII letters; every
  other character is left as it is.
\<close>

definition lower_char :: "char \<Rightarrow> char" where
  "lower_char c =
     (case map_of (zip ''ABCDEFGHIJKLMNOPQRSTUVWXYZ'' ''abcdefghijklmnopqrstuvwxyz'') c of
        Some l \<Rightarrow> l
      | None \<Rightarrow> c)"

definition lower :: "string \<Rightarrow> string" where
  "lower s = map lower_char s"

text \<open>The operator \<open>needle in haystack\<close> on strings: a scan for the first position
  at which \<open>needle\<close> starts.\<close>

fun py_in :: "string \<Rightarrow> string \<Rightarrow> bool" where
  "py_in needle [] = (needle = [])"
| "py_in needle (h # hs) = (prefix needle (h # hs) \<or> py_in needle hs)"

text \<open>The slice \<open>xs[:k]\<close>: a negative \<open>k\<close> counts from the end, and a bound outside
  the list is clipped.\<close>

definition py_slice_to :: "int \<Rightarrow> 'a list \<Rightarrow> 'a list" where
  "py_slice_to k xs =
     (if 0 \<le> k then take (nat k) xs else take (length xs - nat (- k)) xs)"

text \<open>\<open>int(x)\<close> of the quotient \<open>a / b\<close> for \<open>b > 0\<close>: truncation towards zero.\<close>

definition py_trunc_div :: "int \<Rightarrow> int \<Rightarrow> int" where
  "py_trunc_div a b = (if 0 \<le> a then a div b else - ((- a) div b))"

text \<open>\<open>sep.join(xs)\<close>.\<close>

fun join :: "string \<Rightarrow> string list \<Rightarrow> string" where
  "join sep [] = []"
| "join sep [x] = x"
| "join sep (x # y # ys) = x @ sep @ join sep (y # ys)"

text \<open>\<open>str(n)\<close> for an integer.\<close>

definition digit_char :: "nat \<Rightarrow> char" where
  "digit_char n = ''0123456789'' ! (n mod 10)"

function str_nat :: "nat \<Rightarrow> string" where
  "str_nat n = (if n < 10 then [digit_char n] else str_nat (n div 10) @ [digit_char n])"
  by pat_completeness auto
termination
  by (relation "measure id") auto

definition str_int :: "int \<Rightarrow> string" where
  "str_int i = (if i < 0 then CHR ''-'' # str_nat (nat (- i)) else str_nat (nat i))"

text \<open>The exceptions of the model. \<open>PendingRollbackError\<close> is what the database session
  raises on any use after a commit of it has failed and no rollback was issued.\<close>

datatype py_error =
    ZeroDivisionError
  | ValueError string
  | ProviderError string
  | PendingRollbackError

fun str_error :: "py_error \<Rightarrow> string" where
  "str_error ZeroDivisionError = ''division by zero''"
| "str_error (ValueError s) = s"
| "str_error (ProviderError s) = s"
| "str_error PendingRollbackError =
     ''This Session's transaction has been rolled back due to a previous exception during flush.''"

section \<open>Data model\<close>

text \<open>
  Timestamps are natural numbers. Columns of a table share their names across tables in
  the source (\<open>id\<close>, \<open>user_id\<close>, \<open>created_at\<close>), so every field carries the name of its
  table as a prefix.
\<close>

record user =
  user_id :: int
  username :: string
  full_name :: "string option"
  age :: "int option"
  gender :: "string option"
  weight :: "int option"
  height :: "int option"
  medical_conditions :: "string list option"
  medications :: "string list option"
  allergies :: "string list option"
  onboarding_completed :: bool

text \<open>The metadata dictionary of an assistant message; a key that was never assigned
  is \<open>None\<close>.\<close>

record metadata =
  md_provider :: string
  md_model :: string
  md_messages_used :: nat
  md_total_messages :: nat
  md_tokens_used :: "int option"
  md_demo_mode :: "bool option"
  md_protocols_used :: "string list option"
  md_memories_used :: "nat option"
  md_is_onboarding :: "bool option"

text \<open>\<open>message_metadata\<close> is \<open>None\<close> for the empty dictionary.\<close>

record message =
  message_id :: int
  message_user_id :: int
  message_role :: string
  message_content :: string
  message_created_at :: nat
  message_token_count :: int
  message_metadata :: "metadata option"

record memory =
  memory_id :: int
  memory_user_id :: int
  memory_category :: string
  memory_key :: string
  memory_value :: string
  memory_importance :: int
  memory_last_accessed_at :: nat
  memory_created_at :: nat

record protocol =
  protocol_id :: int
  protocol_name :: string
  protocol_category :: string
  protocol_keywords :: "string list"
  protocol_trigger_phrases :: "string list option"
  protocol_response_template :: string
  protocol_priority :: int
  protocol_is_active :: bool

record typing_indicator =
  typing_id :: int
  typing_user_id :: int
  typing_is_typing :: bool
  typing_updated_at :: nat

text \<open>
  The database session: one list of rows per table, in insertion order, and the clock.
  \<open>utc d k\<close> is what the \<open>k\<close>-th reading of the clock returns and \<open>reads d\<close> counts the
  readings made so far, so that two readings within one call may differ.
\<close>

record db =
  messages :: "message list"
  memories :: "memory list"
  protocols :: "protocol list"
  typing_indicators :: "typing_indicator list"
  utc :: "nat \<Rightarrow> nat"
  reads :: nat

text \<open>\<open>datetime.utcnow()\<close>, and \<open>func.now()\<close> as the default of a column.\<close>

definition utcnow :: "db \<Rightarrow> nat \<times> db" where
  "utcnow d = (utc d (reads d), d\<lparr>reads := Suc (reads d)\<rparr>)"

text \<open>An integer primary key without a value: one more than the largest in the table.\<close>

definition next_id :: "int list \<Rightarrow> int" where
  "next_id ids = fold max ids 0 + 1"

text \<open>A row found by \<open>.first()\<close> and then assigned to: the first row of the table that
  satisfies the filter is replaced.\<close>

fun update_first :: "('a \<Rightarrow> bool) \<Rightarrow> ('a \<Rightarrow> 'a) \<Rightarrow> 'a list \<Rightarrow> 'a list" where
  "update_first P f [] = []"
| "update_first P f (x # xs) = (if P x then f x # xs else x # update_first P f xs)"

section \<open>LLMService\<close>

text \<open>A message as the model receives it: the dictionary with the keys \<open>role\<close> and
  \<open>content\<close>.\<close>

record chat =
  role :: string
  content :: string

text \<open>The dictionaries that \<open>get_relevant_memories\<close> and \<open>match_protocols\<close> return.\<close>

record memory_dict =
  dict_category :: string
  dict_key :: string
  dict_value :: string
  dict_importance :: int

record summary =
  summary_name :: string
  summary_category :: string
  summary_response_template :: string
  summary_priority :: int

record profile =
  profile_full_name :: "string option"
  profile_age :: "int option"
  profile_gender :: "string option"
  profile_weight :: "int option"
  profile_height :: "int option"
  profile_medical_conditions :: "string list"
  profile_medications :: "string list"
  profile_allergies :: "string list"

text \<open>One element of the list that the extraction reply parses to: an object with the
  keys it has, or something that is not an object. The value under the key \<open>value\<close> is
  a string or \<open>null\<close>.\<close>

datatype json_text = JString string | JNull

datatype json_item =
    JObject "string option" "string option" "json_text option" "int option"
  | JOther

datatype json_value = JList "json_item list" | JNotList

text \<open>
  The service object. The two limits come from the settings. What lies outside the
  repository is a field: the tokenizer (\<open>None\<close> when \<open>encode\<close> raises), the provider's
  chat call (system prompt and messages to reply text and tokens used, or the exception
  it raises), the provider's call for the extraction prompt, \<open>json.loads\<close> (\<open>None\<close> for
  a decode error), and the reply text that demo mode picks from its keyword table.
\<close>

record llm_service =
  provider :: string
  model :: string
  max_context_tokens :: int
  max_response_tokens :: int
  tokenizer :: "string \<Rightarrow> nat option"
  chat_api :: "string \<Rightarrow> chat list \<Rightarrow> py_error + string \<times> int"
  extract_api :: "string \<Rightarrow> py_error + string"
  json_loads :: "string \<Rightarrow> json_value option"
  demo_reply :: "chat list \<Rightarrow> string"

definition count_tokens :: "llm_service \<Rightarrow> string \<Rightarrow> int" where
  "count_tokens svc text =
     (case tokenizer svc text of
        Some n \<Rightarrow> int n
      | None \<Rightarrow> int (length text) div 4)"

text \<open>The loop of \<open>truncate_context\<close> over the reversed history, with its two variables
  \<open>truncated\<close> and \<open>current_tokens\<close>; \<open>break\<close> returns what was collected.\<close>

fun truncate_loop :: "llm_service \<Rightarrow> int \<Rightarrow> chat list \<Rightarrow> chat list \<Rightarrow> int \<Rightarrow> chat list" where
  "truncate_loop svc available_tokens [] truncated current_tokens = truncated"
| "truncate_loop svc available_tokens (msg # rest) truncated current_tokens =
     (let msg_tokens = count_tokens svc (content msg)
      in if current_tokens + msg_tokens \<le> available_tokens
         then truncate_loop svc available_tokens rest (msg # truncated)
                (current_tokens + msg_tokens)
         else truncated)"

text \<open>
  \<open>chars_per_token\<close> is a float in the source and \<open>max_chars\<close> its product with an
  integer, truncated by \<open>int\<close>. The model computes the same quotient exactly, so the two
  agree wherever the float operations are exact. Dividing by a token count of zero
  raises.
\<close>

definition truncate_context ::
  "llm_service \<Rightarrow> chat list \<Rightarrow> string \<Rightarrow> int option \<Rightarrow> py_error + chat list" where
  "truncate_context svc msgs system_prompt max_tokens_opt =
     (let max_tokens = (case max_tokens_opt of None \<Rightarrow> max_context_tokens svc | Some m \<Rightarrow> m);
          system_tokens = count_tokens svc system_prompt;
          available_tokens = max_tokens - system_tokens - max_response_tokens svc;
          truncated = truncate_loop svc available_tokens (rev msgs) [] 0
      in if truncated = [] \<and> msgs \<noteq> [] then
           (let last_msg = last msgs;
                max_content_tokens = available_tokens - 100;
                content_tokens = count_tokens svc (content last_msg)
            in if content_tokens > max_content_tokens then
                 (if content_tokens = 0 then Inl ZeroDivisionError
                  else
                    (let max_chars =
                           py_trunc_div (max_content_tokens * int (length (content last_msg)))
                             content_tokens
                     in Inr [last_msg\<lparr>content :=
                               py_slice_to max_chars (content last_msg) @ ''...''\<rparr>]))
               else Inr [last_msg])
         else Inr truncated)"

definition onboarding_prompt :: string where
  "onboarding_prompt =
     ''You are Disha, India's first AI health coach. You're having your first conversation with a new user.\<newline>'' @
     ''\<newline>'' @
     ''Your goal is to:\<newline>'' @
     ''1. Welcome them warmly and introduce yourself naturally (don't sound robotic)\<newline>'' @
     ''2. Understand their health goals and current situation\<newline>'' @
     ''3. Gather basic information: age, any medical conditions, current medications, allergies\<newline>'' @
     ''4. Ask about their lifestyle: sleep, exercise, diet, stress levels\<newline>'' @
     ''5. Be empathetic and conversational - you're building a relationship, not conducting an interrogation\<newline>'' @
     ''\<newline>'' @
     ''Important:\<newline>'' @
     ''- Ask ONE question at a time, keep it conversational\<newline>'' @
     ''- Show genuine interest in their responses\<newline>'' @
     ''- Be supportive and non-judgmental\<newline>'' @
     ''- Remember everything they tell you for future conversations\<newline>'' @
     ''- Sound like a caring friend, not a clinical chatbot\<newline>'' @
     ''- Use simple language, avoid medical jargon unless necessary\<newline>'' @
     ''\<newline>'' @
     ''Keep your responses concise and natural. Think WhatsApp chat, not medical consultation.''"

definition persona_parts :: "string list" where
  "persona_parts =
     [''You are Disha, India's first AI health coach. You communicate like a caring friend on WhatsApp.'',
      ''\<newline>Your personality:'',
      ''- Warm, empathetic, and supportive'',
      ''- Use simple language, avoid medical jargon'',
      ''- Keep responses concise (2-3 sentences usually)'',
      ''- Be conversational, not robotic or clinical'',
      ''- Show you remember past conversations'',
      ''- Ask follow-up questions when appropriate'']"

text \<open>The profile block. The dictionary that \<open>get_user_profile\<close> builds always has its
  eight keys, so the test \<open>if user_profile\<close> holds; a value that is \<open>None\<close>, zero or
  empty is skipped.\<close>

definition profile_parts :: "profile \<Rightarrow> string list" where
  "profile_parts p =
     [''\<newline>\<newline>User Profile:''] @
     (case profile_full_name p of
        Some n \<Rightarrow> (if n \<noteq> [] then [''- Name: '' @ n] else [])
      | None \<Rightarrow> []) @
     (case profile_age p of
        Some a \<Rightarrow> (if a \<noteq> 0 then [''- Age: '' @ str_int a] else [])
      | None \<Rightarrow> []) @
     (case profile_gender p of
        Some g \<Rightarrow> (if g \<noteq> [] then [''- Gender: '' @ g] else [])
      | None \<Rightarrow> []) @
     (if profile_medical_conditions p \<noteq> []
      then [''- Medical Conditions: '' @ join '', '' (profile_medical_conditions p)] else []) @
     (if profile_medications p \<noteq> []
      then [''- Medications: '' @ join '', '' (profile_medications p)] else []) @
     (if profile_allergies p \<noteq> []
      then [''- Allergies: '' @ join '', '' (profile_allergies p)] else [])"

definition memory_parts :: "memory_dict list \<Rightarrow> string list" where
  "memory_parts mems =
     (if mems \<noteq> [] then
        [''\<newline>\<newline>Relevant Context from Past Conversations:''] @
        map (\<lambda>m. ''- '' @ dict_key m @ '': '' @ dict_value m) (take 5 mems)
      else [])"

definition protocol_parts :: "summary list \<Rightarrow> string list" where
  "protocol_parts ps =
     (if ps \<noteq> [] then
        [''\<newline>\<newline>Relevant Medical Protocols:''] @
        concat (map (\<lambda>p. [''\<newline>'' @ summary_name p @ '':'', summary_response_template p])
                  (take 3 ps))
      else [])"

definition guideline_parts :: "string list" where
  "guideline_parts =
     [''\<newline>\<newline>Important Guidelines:'',
      ''- For medical emergencies, always advise immediate medical attention'',
      ''- You're a health coach, not a doctor - don't diagnose or prescribe'',
      ''- Use the protocols above when relevant'',
      ''- Be encouraging about healthy habits'',
      ''- Keep responses short and WhatsApp-friendly'']"

definition create_system_prompt ::
  "profile \<Rightarrow> memory_dict list \<Rightarrow> summary list \<Rightarrow> bool \<Rightarrow> string" where
  "create_system_prompt user_profile mems ps is_onboarding =
     (if is_onboarding then onboarding_prompt
      else join ''\<newline>''
             (persona_parts @ profile_parts user_profile @ memory_parts mems @
              protocol_parts ps @ guideline_parts))"

definition generate_demo_response ::
  "llm_service \<Rightarrow> chat list \<Rightarrow> metadata \<Rightarrow> string \<times> metadata" where
  "generate_demo_response svc msgs md =
     (let response = demo_reply svc msgs
      in (response,
          md\<lparr>md_tokens_used := Some (int (length response) div 4),
             md_demo_mode := Some True\<rparr>))"

text \<open>The \<open>except\<close> clause of \<open>generate_response\<close> logs and raises again, so an error of
  the truncation or of the provider is the result.\<close>

definition generate_response ::
  "llm_service \<Rightarrow> chat list \<Rightarrow> string \<Rightarrow> py_error + string \<times> metadata" where
  "generate_response svc msgs system_prompt =
     (case truncate_context svc msgs system_prompt None of
        Inl e \<Rightarrow> Inl e
      | Inr truncated_messages \<Rightarrow>
          (let md = \<lparr>md_provider = provider svc, md_model = model svc,
                     md_messages_used = length truncated_messages,
                     md_total_messages = length msgs,
                     md_tokens_used = None, md_demo_mode = None, md_protocols_used = None,
                     md_memories_used = None, md_is_onboarding = None\<rparr>
           in if provider svc = ''demo'' then
                Inr (generate_demo_response svc truncated_messages md)
              else if provider svc = ''openai'' \<or> provider svc = ''anthropic'' then
                (case chat_api svc system_prompt truncated_messages of
                   Inl e \<Rightarrow> Inl e
                 | Inr (text, tokens_used) \<Rightarrow> Inr (text, md\<lparr>md_tokens_used := Some tokens_used\<rparr>))
              else Inl (ValueError (''Unsupported provider: '' @ provider svc))))"

definition extraction_prompt :: "string \<Rightarrow> string" where
  "extraction_prompt conversation =
     ''Analyze this conversation and extract key information that should be remembered about the user.\<newline>'' @
     ''Return a JSON list of memories in this format:\<newline>'' @
     ''[{\"category\": \"health_goal\", \"key\": \"primary_goal\", \"value\": \"description\", \"importance\": 1-5}]\<newline>'' @
     ''\<newline>'' @
     ''Categories: health_goal, preference, medical_history, lifestyle, concern\<newline>'' @
     ''\<newline>'' @
     ''Conversation:\<newline>'' @
     conversation @ ''\<newline>'' @
     ''\<newline>'' @
     ''Extract only factual, important information. Return empty list if nothing significant.''"

text \<open>In demo mode the client is \<open>None\<close>, the call raises, and the outer \<open>except\<close>
  returns the empty list, as it does for every failure of the call.\<close>

definition extract_memories :: "llm_service \<Rightarrow> string \<Rightarrow> json_item list" where
  "extract_memories svc conversation =
     (if provider svc = ''demo'' then []
      else
        (case extract_api svc (extraction_prompt conversation) of
           Inl e \<Rightarrow> []
         | Inr result \<Rightarrow>
             (case json_loads svc result of
                None \<Rightarrow> []
              | Some (JList ms) \<Rightarrow> ms
              | Some JNotList \<Rightarrow> [])))"

section \<open>MemoryService\<close>

definition is_fact :: "int \<Rightarrow> string \<Rightarrow> string \<Rightarrow> memory \<Rightarrow> bool" where
  "is_fact uid category key m \<longleftrightarrow>
     memory_user_id m = uid \<and> memory_category m = category \<and> memory_key m = key"

definition create_memory ::
  "db \<Rightarrow> int \<Rightarrow> string \<Rightarrow> string \<Rightarrow> string \<Rightarrow> int \<Rightarrow> memory \<times> db" where
  "create_memory d uid category key val importance =
     (case find (is_fact uid category key) (memories d) of
        Some existing \<Rightarrow>
          (case utcnow d of (now, d1) \<Rightarrow>
             let upd = (\<lambda>m. m\<lparr>memory_value := val, memory_importance := importance,
                               memory_last_accessed_at := now\<rparr>)
             in (upd existing,
                 d1\<lparr>memories := update_first (is_fact uid category key) upd (memories d1)\<rparr>))
      | None \<Rightarrow>
          (case utcnow d of (now, d1) \<Rightarrow>
             let mem = \<lparr>memory_id = next_id (map memory_id (memories d1)),
                        memory_user_id = uid, memory_category = category, memory_key = key,
                        memory_value = val, memory_importance = importance,
                        memory_last_accessed_at = now, memory_created_at = now\<rparr>
             in (mem, d1\<lparr>memories := memories d1 @ [mem]\<rparr>)))"

definition memory_to_dict :: "memory \<Rightarrow> memory_dict" where
  "memory_to_dict m =
     \<lparr>dict_category = memory_category m, dict_key = memory_key m,
      dict_value = memory_value m, dict_importance = memory_importance m\<rparr>"

text \<open>
  The query: the user's rows, by importance and then by time of last access, both
  descending, at most \<open>limit\<close> of them. Each row goes with its position in the table,
  which is the identity of the object that the loop assigns to. The query leaves the
  order of rows that agree on both sort keys open; the model keeps their table order.
\<close>

definition query_memories :: "db \<Rightarrow> int \<Rightarrow> nat \<Rightarrow> (nat \<times> memory) list" where
  "query_memories d uid limit =
     take limit
       (sort_key (\<lambda>(i, m). (- memory_importance m, - int (memory_last_accessed_at m)))
          (filter (\<lambda>(i, m). memory_user_id m = uid) (enumerate 0 (memories d))))"

definition touch :: "nat \<Rightarrow> db \<Rightarrow> db" where
  "touch i d =
     (case utcnow d of (now, d1) \<Rightarrow>
        d1\<lparr>memories := (memories d1)[i := (memories d1 ! i)\<lparr>memory_last_accessed_at := now\<rparr>]\<rparr>)"

definition get_relevant_memories :: "db \<Rightarrow> int \<Rightarrow> nat \<Rightarrow> memory_dict list \<times> db" where
  "get_relevant_memories d uid limit =
     (let selected = query_memories d uid limit
      in (map (memory_to_dict \<circ> snd) selected, fold (\<lambda>(i, m). touch i) selected d))"


text \<open>
  \<open>create_memory\<close> called with \<open>None\<close> for the value, on a usable session: the query
  runs, the path that updates a row reads the clock, and the commit raises, because the
  column is declared \<open>nullable=False\<close>. No row is stored or changed.
\<close>

definition create_memory_null_value :: "db \<Rightarrow> int \<Rightarrow> string \<Rightarrow> string \<Rightarrow> db" where
  "create_memory_null_value d uid category key =
     (case find (is_fact uid category key) (memories d) of
        Some existing \<Rightarrow> snd (utcnow d)
      | None \<Rightarrow> d)"

text \<open>
  The loop over the extracted list, on a session that is usable when the loop starts. It
  returns the database and whether the session is left in need of a rollback. An element
  that is not an object makes \<open>.get\<close> raise before the database is touched. An object
  whose \<open>value\<close> is \<open>null\<close> reaches \<open>create_memory\<close> with \<open>None\<close> for the value, and the
  commit of the call raises. In both cases the \<open>except\<close> of
  \<open>extract_and_store_memories\<close> logs the exception and the loop is over; what was stored
  before stays stored. The \<open>except\<close> issues no rollback, so after the failed commit the
  session raises on its next use.
\<close>

fun store_memories :: "db \<Rightarrow> int \<Rightarrow> json_item list \<Rightarrow> db \<times> bool" where
  "store_memories d uid [] = (d, False)"
| "store_memories d uid (JOther # rest) = (d, False)"
| "store_memories d uid (JObject c k (Some JNull) i # rest) =
     (create_memory_null_value d uid
        (case c of None \<Rightarrow> ''general'' | Some x \<Rightarrow> x)
        (case k of None \<Rightarrow> ''info'' | Some x \<Rightarrow> x),
      True)"
| "store_memories d uid (JObject c k None i # rest) =
     store_memories
       (snd (create_memory d uid
               (case c of None \<Rightarrow> ''general'' | Some x \<Rightarrow> x)
               (case k of None \<Rightarrow> ''info'' | Some x \<Rightarrow> x)
               []
               (case i of None \<Rightarrow> 1 | Some x \<Rightarrow> x)))
       uid rest"
| "store_memories d uid (JObject c k (Some (JString v)) i # rest) =
     store_memories
       (snd (create_memory d uid
               (case c of None \<Rightarrow> ''general'' | Some x \<Rightarrow> x)
               (case k of None \<Rightarrow> ''info'' | Some x \<Rightarrow> x)
               v
               (case i of None \<Rightarrow> 1 | Some x \<Rightarrow> x)))
       uid rest"

definition extract_and_store_memories ::
  "llm_service \<Rightarrow> db \<Rightarrow> int \<Rightarrow> string \<Rightarrow> db \<times> bool" where
  "extract_and_store_memories svc d uid conversation =
     store_memories d uid (extract_memories svc conversation)"

section \<open>MessageService\<close>

definition create_message ::
  "llm_service \<Rightarrow> db \<Rightarrow> int \<Rightarrow> string \<Rightarrow> string \<Rightarrow> int \<Rightarrow> metadata option \<Rightarrow> message \<times> db" where
  "create_message svc d uid role_name text token_count md =
     (let token_count' = (if token_count = 0 then count_tokens svc text else token_count)
      in case utcnow d of (now, d1) \<Rightarrow>
           let msg = \<lparr>message_id = next_id (map message_id (messages d1)),
                      message_user_id = uid, message_role = role_name, message_content = text,
                      message_created_at = now, message_token_count = token_count',
                      message_metadata = md\<rparr>
           in (msg, d1\<lparr>messages := messages d1 @ [msg]\<rparr>))"

record message_response =
  resp_id :: int
  resp_user_id :: int
  resp_role :: string
  resp_content :: string
  resp_created_at :: nat
  resp_message_metadata :: "metadata option"

definition model_validate :: "message \<Rightarrow> message_response" where
  "model_validate msg =
     \<lparr>resp_id = message_id msg, resp_user_id = message_user_id msg,
      resp_role = message_role msg, resp_content = message_content msg,
      resp_created_at = message_created_at msg,
      resp_message_metadata = message_metadata msg\<rparr>"

record message_list_response =
  list_messages :: "message_response list"
  list_total :: nat
  list_has_more :: bool
  list_next_cursor :: "int option"

text \<open>\<open>order_by(desc(Message.created_at))\<close>. The query leaves the order of rows with
  the same time open; the model keeps their table order.\<close>

definition newest_first :: "message list \<Rightarrow> message list" where
  "newest_first ms = sort_key (\<lambda>m. - int (message_created_at m)) ms"

text \<open>
  The limit is a natural number here: the endpoint admits 1 to 100 only. The test
  \<open>if before_id\<close> is a test for truth, so the cursor 0 filters nothing, as no cursor
  does.
\<close>

definition get_messages :: "db \<Rightarrow> int \<Rightarrow> nat \<Rightarrow> int option \<Rightarrow> message_list_response" where
  "get_messages d uid limit before_id =
     (let query = filter (\<lambda>m. message_user_id m = uid) (messages d);
          query' = (case before_id of
                      None \<Rightarrow> query
                    | Some b \<Rightarrow> (if b \<noteq> 0 then filter (\<lambda>m. message_id m < b) query else query));
          fetched = take (limit + 1) (newest_first query');
          has_more = (length fetched > limit);
          msgs = (if has_more then take limit fetched else fetched);
          total = length (filter (\<lambda>m. message_user_id m = uid) (messages d));
          next_cursor = (if msgs \<noteq> [] \<and> has_more then Some (message_id (last msgs)) else None)
      in \<lparr>list_messages = map model_validate msgs, list_total = total,
          list_has_more = has_more, list_next_cursor = next_cursor\<rparr>)"

definition get_recent_messages :: "db \<Rightarrow> int \<Rightarrow> nat \<Rightarrow> chat list" where
  "get_recent_messages d uid limit =
     map (\<lambda>msg. \<lparr>role = message_role msg, content = message_content msg\<rparr>)
       (rev (take limit (newest_first (filter (\<lambda>m. message_user_id m = uid) (messages d)))))"

section \<open>ProtocolService\<close>

definition summary_of :: "protocol \<Rightarrow> summary" where
  "summary_of p =
     \<lparr>summary_name = protocol_name p, summary_category = protocol_category p,
      summary_response_template = protocol_response_template p,
      summary_priority = protocol_priority p\<rparr>"

text \<open>The loop of \<open>match_protocols\<close> with its variable \<open>matched\<close>.\<close>

fun match_loop :: "string \<Rightarrow> protocol list \<Rightarrow> summary list \<Rightarrow> summary list" where
  "match_loop user_message_lower [] matched = matched"
| "match_loop user_message_lower (p # ps) matched =
     (if list_ex (\<lambda>keyword. py_in (lower keyword) user_message_lower) (protocol_keywords p)
      then
        (let trigger_phrases = (case protocol_trigger_phrases p of None \<Rightarrow> [] | Some t \<Rightarrow> t)
         in if trigger_phrases \<noteq> [] then
              (if list_ex (\<lambda>phrase. py_in (lower phrase) user_message_lower) trigger_phrases
               then match_loop user_message_lower ps (matched @ [summary_of p])
               else match_loop user_message_lower ps matched)
            else match_loop user_message_lower ps (matched @ [summary_of p]))
      else match_loop user_message_lower ps matched)"

text \<open>\<open>order_by(desc(Protocol.priority))\<close> over the active protocols. The query leaves
  the order of equal priorities open; the model keeps their table order.\<close>

definition active_protocols :: "db \<Rightarrow> protocol list" where
  "active_protocols d =
     sort_key (\<lambda>p. - protocol_priority p) (filter protocol_is_active (protocols d))"

definition match_protocols :: "db \<Rightarrow> string \<Rightarrow> profile \<Rightarrow> summary list" where
  "match_protocols d user_message user_profile =
     take 3 (match_loop (lower user_message) (active_protocols d) [])"

section \<open>TypingService\<close>

text \<open>What \<open>update_typing_status\<close> does on a usable session: the row of the user is
  created or rewritten.\<close>

definition write_typing_status :: "db \<Rightarrow> int \<Rightarrow> bool \<Rightarrow> db" where
  "write_typing_status d uid is_typing =
     (case find (\<lambda>t. typing_user_id t = uid) (typing_indicators d) of
        None \<Rightarrow>
          (case utcnow d of (now, d1) \<Rightarrow>
             d1\<lparr>typing_indicators := typing_indicators d1 @
                   [\<lparr>typing_id = next_id (map typing_id (typing_indicators d1)),
                     typing_user_id = uid, typing_is_typing = is_typing,
                     typing_updated_at = now\<rparr>]\<rparr>)
      | Some indicator \<Rightarrow>
          (case utcnow d of (now, d1) \<Rightarrow>
             d1\<lparr>typing_indicators :=
                   update_first (\<lambda>t. typing_user_id t = uid)
                     (\<lambda>t. t\<lparr>typing_is_typing := is_typing, typing_updated_at := now\<rparr>)
                     (typing_indicators d1)\<rparr>))"

text \<open>
  \<open>update_typing_status\<close> on the session of the request; \<open>pending\<close> says whether an
  earlier commit of the session failed without a rollback. Then the query with which
  the function starts raises and the database stays as it is. It is the only function
  that the source calls on a session in that state: a request starts with a fresh
  session, and only the swallowed failure in \<open>extract_and_store_memories\<close> leaves one
  behind, after which \<open>send_message\<close> makes no other call on the session.
\<close>

definition update_typing_status :: "bool \<Rightarrow> db \<Rightarrow> int \<Rightarrow> bool \<Rightarrow> py_error + db" where
  "update_typing_status pending d uid is_typing =
     (if pending then Inl PendingRollbackError
      else Inr (write_typing_status d uid is_typing))"

definition get_typing_status :: "db \<Rightarrow> int \<Rightarrow> bool \<times> nat option" where
  "get_typing_status d uid =
     (case find (\<lambda>t. typing_user_id t = uid) (typing_indicators d) of
        Some indicator \<Rightarrow> (typing_is_typing indicator, Some (typing_updated_at indicator))
      | None \<Rightarrow> (False, None))"

section \<open>UserService and ChatService\<close>

definition get_user_profile :: "user \<Rightarrow> profile" where
  "get_user_profile u =
     \<lparr>profile_full_name = full_name u, profile_age = age u, profile_gender = gender u,
      profile_weight = weight u, profile_height = height u,
      profile_medical_conditions = (case medical_conditions u of None \<Rightarrow> [] | Some xs \<Rightarrow> xs),
      profile_medications = (case medications u of None \<Rightarrow> [] | Some xs \<Rightarrow> xs),
      profile_allergies = (case allergies u of None \<Rightarrow> [] | Some xs \<Rightarrow> xs)\<rparr>"

text \<open>
  One turn, on a usable session. The call of \<open>get_relevant_memories\<close> passes no limit,
  so the default of 10 applies. An error of \<open>generate_response\<close> leaves the function at
  that point, with the database as it is then. The third component of the result says
  whether the session is left in need of a rollback, which only the extraction at the
  end can cause.
\<close>

definition process_message ::
  "llm_service \<Rightarrow> db \<Rightarrow> user \<Rightarrow> string \<Rightarrow> (py_error + message \<times> message) \<times> db \<times> bool" where
  "process_message svc d u message_text =
     (case create_message svc d (user_id u) ''user'' message_text 0 None of
        (user_message, d1) \<Rightarrow>
          (let is_onboarding = \<not> onboarding_completed u;
               user_profile = get_user_profile u
           in (case get_relevant_memories d1 (user_id u) 10 of
                 (mems, d2) \<Rightarrow>
                   (let ps = match_protocols d2 message_text user_profile;
                        system_prompt = create_system_prompt user_profile mems ps is_onboarding;
                        message_history = get_recent_messages d2 (user_id u) 20
                    in (case generate_response svc message_history system_prompt of
                          Inl e \<Rightarrow> (Inl e, d2, False)
                        | Inr (response_content, md) \<Rightarrow>
                            (let md' = md\<lparr>md_protocols_used := Some (map summary_name ps),
                                          md_memories_used := Some (length mems),
                                          md_is_onboarding := Some is_onboarding\<rparr>
                             in (case create_message svc d2 (user_id u) ''assistant''
                                        response_content 0 (Some md') of
                                   (assistant_message, d3) \<Rightarrow>
                                     (if length message_history mod 5 = 0 then
                                        (case extract_and_store_memories svc d3 (user_id u)
                                                (''User: '' @ message_text @
                                                 ''\<newline>Assistant: '' @ response_content) of
                                           (d4, pending) \<Rightarrow>
                                             (Inr (user_message, assistant_message), d4, pending))
                                      else
                                        (Inr (user_message, assistant_message), d3, False)))))))))"

section \<open>The endpoints\<close>

datatype http_exception = HTTPException int string

record context_used =
  context_protocols :: "string list"
  context_memories_count :: nat

record chat_response =
  chat_user_message :: message_response
  chat_assistant_message :: message_response
  chat_context_used :: context_used

text \<open>
  The \<open>except\<close> clause of \<open>send_message\<close> for the exception \<open>e\<close>: it clears the
  indicator and raises the exception of status 500. When clearing the indicator raises,
  that exception leaves the endpoint instead.
\<close>

definition send_message_except ::
  "py_error \<Rightarrow> bool \<Rightarrow> db \<Rightarrow> user \<Rightarrow> ((py_error + http_exception) + chat_response) \<times> db" where
  "send_message_except e pending d current_user =
     (case update_typing_status pending d (user_id current_user) False of
        Inl e' \<Rightarrow> (Inl (Inl e'), d)
      | Inr d' \<Rightarrow>
          (Inl (Inr (HTTPException 500 (''Error processing message: '' @ str_error e))), d'))"

text \<open>
  The endpoint \<open>/api/chat\<close>, on the fresh session of the request. Its result is the
  response, or the \<open>HTTPException\<close> it raises, or another exception that leaves it.
\<close>

definition send_message ::
  "llm_service \<Rightarrow> db \<Rightarrow> user \<Rightarrow> string \<Rightarrow>
     ((py_error + http_exception) + chat_response) \<times> db" where
  "send_message svc d current_user request_message =
     (case update_typing_status False d (user_id current_user) True of
        Inl e \<Rightarrow> send_message_except e False d current_user
      | Inr d1 \<Rightarrow>
          (case process_message svc d1 current_user request_message of
             (Inl e, d2, pending) \<Rightarrow> send_message_except e pending d2 current_user
           | (Inr (user_msg, assistant_msg), d2, pending) \<Rightarrow>
               (case update_typing_status pending d2 (user_id current_user) False of
                  Inl e \<Rightarrow> send_message_except e pending d2 current_user
                | Inr d3 \<Rightarrow>
                    (Inr \<lparr>chat_user_message = model_validate user_msg,
                          chat_assistant_message = model_validate assistant_msg,
                          chat_context_used =
                            \<lparr>context_protocols =
                               (case message_metadata assistant_msg of
                                  None \<Rightarrow> []
                                | Some md \<Rightarrow>
                                    (case md_protocols_used md of
                                       None \<Rightarrow> [] | Some ns \<Rightarrow> ns)),
                             context_memories_count =
                               (case message_metadata assistant_msg of
                                  None \<Rightarrow> 0
                                | Some md \<Rightarrow>
                                    (case md_memories_used md of
                                       None \<Rightarrow> 0 | Some n \<Rightarrow> n))\<rparr>\<rparr>,
                     d3))))"

text \<open>The endpoint \<open>/api/messages\<close>, which the source also calls \<open>get_messages\<close>.\<close>

definition api_get_messages ::
  "db \<Rightarrow> user \<Rightarrow> int \<Rightarrow> int option \<Rightarrow> http_exception + message_list_response" where
  "api_get_messages d current_user limit before_id =
     (if limit < 1 \<or> limit > 100
      then Inl (HTTPException 400 ''Limit must be between 1 and 100'')
      else Inr (get_messages d (user_id current_user) (nat limit) before_id))"

section \<open>Properties stated over the model\<close>

text \<open>The triple that identifies a Fact, and the invariant of the memory store: no two
  rows of the table carry the same triple.\<close>

definition fact_key :: "memory \<Rightarrow> int \<times> string \<times> string" where
  "fact_key m = (memory_user_id m, memory_category m, memory_key m)"

definition unique_facts :: "db \<Rightarrow> bool" where
  "unique_facts d \<longleftrightarrow> distinct (map fact_key (memories d))"

text \<open>The token count of a sequence of messages, and the budget that is left for the
  history once the instruction text and the reply are accounted for.\<close>

definition tokens_of :: "llm_service \<Rightarrow> chat list \<Rightarrow> int" where
  "tokens_of svc msgs = sum_list (map (\<lambda>m. count_tokens svc (content m)) msgs)"

definition available :: "llm_service \<Rightarrow> string \<Rightarrow> int" where
  "available svc system_prompt =
     max_context_tokens svc - count_tokens svc system_prompt - max_response_tokens svc"



text \<open>
  What the matching rule says: a keyword, lowered, is a contiguous part of the lowered
  message; the trigger phrases of a protocol are its list, or none when the column is
  null; a protocol matches when it is active, one of its keywords occurs and, if it has
  trigger phrases, one of them occurs as well.
\<close>

definition occurs_in :: "string \<Rightarrow> string \<Rightarrow> bool" where
  "occurs_in word msg \<longleftrightarrow> sublist (lower word) (lower msg)"

definition trigger_phrases_of :: "protocol \<Rightarrow> string list" where
  "trigger_phrases_of p = (case protocol_trigger_phrases p of None \<Rightarrow> [] | Some t \<Rightarrow> t)"

definition keyword_hit :: "string \<Rightarrow> protocol \<Rightarrow> bool" where
  "keyword_hit msg p \<longleftrightarrow> (\<exists>kw \<in> set (protocol_keywords p). occurs_in kw msg)"

definition phrase_hit :: "string \<Rightarrow> protocol \<Rightarrow> bool" where
  "phrase_hit msg p \<longleftrightarrow> (\<exists>ph \<in> set (trigger_phrases_of p). occurs_in ph msg)"

definition protocol_matches :: "string \<Rightarrow> protocol \<Rightarrow> bool" where
  "protocol_matches msg p \<longleftrightarrow>
     protocol_is_active p \<and> keyword_hit msg p \<and>
     (trigger_phrases_of p \<noteq> [] \<longrightarrow> phrase_hit msg p)"

text \<open>The test that the loop of \<open>match_protocols\<close> makes on a protocol that the query
  has already found active.\<close>

definition loop_matches :: "string \<Rightarrow> protocol \<Rightarrow> bool" where
  "loop_matches msg p \<longleftrightarrow>
     keyword_hit msg p \<and> (trigger_phrases_of p \<noteq> [] \<longrightarrow> phrase_hit msg p)"

text \<open>The order of the query on two Facts: more important first and, at equal
  importance, more recently accessed first.\<close>

definition ranks_before :: "memory \<Rightarrow> memory \<Rightarrow> bool" where
  "ranks_before a b \<longleftrightarrow>
     memory_importance a > memory_importance b \<or>
     (memory_importance a = memory_importance b \<and>
      memory_last_accessed_at a \<ge> memory_last_accessed_at b)"

text \<open>
  Pagination. The messages that a page is drawn from are those of the user, below the
  cursor when a cursor other than 0 is given. A page is in descending order of id when the
  ids of its items fall strictly.
\<close>

definition candidates :: "db \<Rightarrow> int \<Rightarrow> int option \<Rightarrow> message list" where
  "candidates d uid before_id =
     filter (\<lambda>m. message_user_id m = uid \<and>
                 (case before_id of None \<Rightarrow> True | Some c \<Rightarrow> c = 0 \<or> message_id m < c))
       (messages d)"

definition ids_descending :: "message_list_response \<Rightarrow> bool" where
  "ids_descending r \<longleftrightarrow> sorted_wrt (\<lambda>a b. resp_id a > resp_id b) (list_messages r)"

text \<open>
  The values that \<open>process_message\<close> computes before it calls \<open>generate_response\<close>, as
  functions of its arguments: the user turn it stores, the facts it retrieves, the
  session after both, the protocols, the instruction text and the history.
\<close>

definition turn_user_message :: "llm_service \<Rightarrow> db \<Rightarrow> user \<Rightarrow> string \<Rightarrow> message" where
  "turn_user_message svc d u msg = fst (create_message svc d (user_id u) ''user'' msg 0 None)"

definition turn_memories :: "llm_service \<Rightarrow> db \<Rightarrow> user \<Rightarrow> string \<Rightarrow> memory_dict list" where
  "turn_memories svc d u msg =
     fst (get_relevant_memories (snd (create_message svc d (user_id u) ''user'' msg 0 None))
            (user_id u) 10)"

definition turn_db :: "llm_service \<Rightarrow> db \<Rightarrow> user \<Rightarrow> string \<Rightarrow> db" where
  "turn_db svc d u msg =
     snd (get_relevant_memories (snd (create_message svc d (user_id u) ''user'' msg 0 None))
            (user_id u) 10)"

definition turn_protocols :: "llm_service \<Rightarrow> db \<Rightarrow> user \<Rightarrow> string \<Rightarrow> summary list" where
  "turn_protocols svc d u msg = match_protocols (turn_db svc d u msg) msg (get_user_profile u)"

definition turn_prompt :: "llm_service \<Rightarrow> db \<Rightarrow> user \<Rightarrow> string \<Rightarrow> string" where
  "turn_prompt svc d u msg =
     create_system_prompt (get_user_profile u) (turn_memories svc d u msg)
       (turn_protocols svc d u msg) (\<not> onboarding_completed u)"

definition turn_history :: "llm_service \<Rightarrow> db \<Rightarrow> user \<Rightarrow> string \<Rightarrow> chat list" where
  "turn_history svc d u msg = get_recent_messages (turn_db svc d u msg) (user_id u) 20"

text \<open>The outcome of the generation call of a turn that \<open>send_message\<close> runs: the
  indicator is set before \<open>process_message\<close> starts.\<close>

definition turn_generation ::
  "llm_service \<Rightarrow> db \<Rightarrow> user \<Rightarrow> string \<Rightarrow> py_error + string \<times> metadata" where
  "turn_generation svc d u msg =
     (let d1 = write_typing_status d (user_id u) True
      in generate_response svc (turn_history svc d1 u msg) (turn_prompt svc d1 u msg))"

text \<open>The count of facts that the response of the chat endpoint reports, if there is a
  response.\<close>

definition reported_memories_count ::
  "(py_error + http_exception) + chat_response \<Rightarrow> nat option" where
  "reported_memories_count res =
     (case res of
        Inl e \<Rightarrow> None
      | Inr r \<Rightarrow> Some (context_memories_count (chat_context_used r)))"

section \<open>Example data\<close>

definition example_clock :: "nat \<Rightarrow> nat" where
  "example_clock k = 1000 + k"

definition example_memories :: "memory list" where
  "example_memories =
     [\<lparr>memory_id = 1, memory_user_id = 7, memory_category = ''health_goal'',
       memory_key = ''primary_goal'', memory_value = ''lose weight'', memory_importance = 3,
       memory_last_accessed_at = 10, memory_created_at = 10\<rparr>,
      \<lparr>memory_id = 2, memory_user_id = 7, memory_category = ''lifestyle'',
       memory_key = ''sleep'', memory_value = ''six hours'', memory_importance = 4,
       memory_last_accessed_at = 20, memory_created_at = 20\<rparr>,
      \<lparr>memory_id = 3, memory_user_id = 8, memory_category = ''health_goal'',
       memory_key = ''primary_goal'', memory_value = ''run 5k'', memory_importance = 5,
       memory_last_accessed_at = 30, memory_created_at = 30\<rparr>,
      \<lparr>memory_id = 4, memory_user_id = 7, memory_category = ''concern'',
       memory_key = ''knee'', memory_value = ''pain when running'', memory_importance = 4,
       memory_last_accessed_at = 40, memory_created_at = 40\<rparr>]"

definition example_db :: db where
  "example_db =
     \<lparr>messages = [], memories = example_memories, protocols = [], typing_indicators = [],
      utc = example_clock, reads = 0\<rparr>"

text \<open>
  A service for the examples: the limits are the defaults of the settings, the
  tokenizer counts one token for every eight characters or part of eight, and the
  provider is out of reach. The examples are chosen so that what they show does not
  rest on the exact counts.
\<close>

definition sample_tokenizer :: "string \<Rightarrow> nat option" where
  "sample_tokenizer text = Some ((length text + 7) div 8)"

definition failing_api :: "string \<Rightarrow> chat list \<Rightarrow> py_error + string \<times> int" where
  "failing_api system_prompt msgs = Inl (ProviderError ''Connection error.'')"

definition failing_extract :: "string \<Rightarrow> py_error + string" where
  "failing_extract prompt = Inl (ProviderError ''Connection error.'')"

definition no_json :: "string \<Rightarrow> json_value option" where
  "no_json text = None"

definition fixed_reply :: "chat list \<Rightarrow> string" where
  "fixed_reply msgs = ''I understand. Can you tell me more about what you're experiencing?''"

definition example_service :: llm_service where
  "example_service =
     \<lparr>provider = ''openai'', model = ''gpt-4o-mini'',
      max_context_tokens = 8000, max_response_tokens = 1000,
      tokenizer = sample_tokenizer, chat_api = failing_api, extract_api = failing_extract,
      json_loads = no_json, demo_reply = fixed_reply\<rparr>"

text \<open>An instruction text of 80000 characters, which leaves a budget below zero under
  the default limits; a greeting; and a history of a very long reply and the greeting.\<close>

definition long_prompt :: string where
  "long_prompt = replicate 80000 (CHR ''x'')"

definition greeting :: chat where
  "greeting = \<lparr>role = ''user'', content = ''Hi''\<rparr>"

definition short_history :: "chat list" where
  "short_history = [\<lparr>role = ''assistant'', content = replicate 80000 (CHR ''a'')\<rparr>, greeting]"

text \<open>
  A service whose provider replies and whose extraction returns one memory with
  \<open>null\<close> for its value.
\<close>

definition replying_api :: "string \<Rightarrow> chat list \<Rightarrow> py_error + string \<times> int" where
  "replying_api system_prompt msgs =
     Inr (''Six hours is on the short side. How do you feel during the day?'', 350)"

definition null_value_text :: string where
  "null_value_text =
     ''[{\"category\": \"lifestyle\", \"key\": \"sleep_hours\", \"value\": null, \"importance\": 3}]''"

definition null_value_extract :: "string \<Rightarrow> py_error + string" where
  "null_value_extract prompt = Inr null_value_text"

definition parse_example :: "string \<Rightarrow> json_value option" where
  "parse_example text =
     (if text = null_value_text
      then Some (JList [JObject (Some ''lifestyle'') (Some ''sleep_hours'') (Some JNull) (Some 3)])
      else None)"

definition null_value_service :: llm_service where
  "null_value_service =
     example_service\<lparr>chat_api := replying_api, extract_api := null_value_extract,
                      json_loads := parse_example\<rparr>"

definition example_protocols :: "protocol list" where
  "example_protocols =
     [\<lparr>protocol_id = 1, protocol_name = ''Fever Management'', protocol_category = ''symptom'',
       protocol_keywords = [''fever'', ''temperature'', ''hot'', ''burning up''],
       protocol_trigger_phrases = Some [''have fever'', ''running fever''],
       protocol_response_template = ''For fever management: rest and stay hydrated'',
       protocol_priority = 8, protocol_is_active = True\<rparr>,
      \<lparr>protocol_id = 2, protocol_name = ''Headache'', protocol_category = ''symptom'',
       protocol_keywords = [''headache'', ''head pain'', ''migraine''],
       protocol_trigger_phrases = Some [''have a headache'', ''head is paining''],
       protocol_response_template = ''For headache relief: rest in a quiet, dark room'',
       protocol_priority = 6, protocol_is_active = True\<rparr>,
      \<lparr>protocol_id = 3, protocol_name = ''Emergency Symptoms'', protocol_category = ''emergency'',
       protocol_keywords = [''chest pain'', ''bleeding'', ''severe''],
       protocol_trigger_phrases = None,
       protocol_response_template = ''Please seek immediate medical attention'',
       protocol_priority = 10, protocol_is_active = True\<rparr>,
      \<lparr>protocol_id = 4, protocol_name = ''Old Fever Advice'', protocol_category = ''symptom'',
       protocol_keywords = [''fever''],
       protocol_trigger_phrases = None,
       protocol_response_template = ''Withdrawn'',
       protocol_priority = 9, protocol_is_active = False\<rparr>]"

definition protocol_db :: db where
  "protocol_db = example_db\<lparr>protocols := example_protocols\<rparr>"

definition example_profile :: profile where
  "example_profile =
     \<lparr>profile_full_name = Some ''Asha'', profile_age = Some 34, profile_gender = None,
      profile_weight = None, profile_height = None, profile_medical_conditions = [],
      profile_medications = [], profile_allergies = []\<rparr>"

definition example_user :: user where
  "example_user =
     \<lparr>user_id = 7, username = ''asha'', full_name = Some ''Asha'', age = Some 34,
      gender = None, weight = None, height = None, medical_conditions = None,
      medications = None, allergies = None, onboarding_completed = True\<rparr>"

definition example_messages :: "message list" where
  "example_messages =
     [\<lparr>message_id = 1, message_user_id = 7, message_role = ''user'',
       message_content = ''Hi'', message_created_at = 10, message_token_count = 1,
       message_metadata = None\<rparr>,
      \<lparr>message_id = 2, message_user_id = 7, message_role = ''assistant'',
       message_content = ''Hello! How are you feeling today?'', message_created_at = 11,
       message_token_count = 8, message_metadata = None\<rparr>,
      \<lparr>message_id = 3, message_user_id = 8, message_role = ''user'',
       message_content = ''Good morning'', message_created_at = 12, message_token_count = 2,
       message_metadata = None\<rparr>,
      \<lparr>message_id = 4, message_user_id = 7, message_role = ''user'',
       message_content = ''I have a headache'', message_created_at = 13,
       message_token_count = 4, message_metadata = None\<rparr>]"

definition message_db :: db where
  "message_db = example_db\<lparr>messages := example_messages\<rparr>"

text \<open>The same with one more reply, so that user 7 has four stored messages and the
  next turn retrieves a history of five.\<close>

definition fifth_turn_db :: db where
  "fifth_turn_db =
     example_db\<lparr>messages := example_messages @
       [\<lparr>message_id = 5, message_user_id = 7, message_role = ''assistant'',
         message_content = ''Sorry to hear that. How did you sleep?'', message_created_at = 14,
         message_token_count = 10, message_metadata = None\<rparr>]\<rparr>"

text \<open>Two messages of one user where the clock of the database stepped back between
  the two inserts: the later id carries the earlier time.\<close>

definition skewed_messages :: "message list" where
  "skewed_messages =
     [\<lparr>message_id = 1, message_user_id = 7, message_role = ''user'',
       message_content = ''Hi'', message_created_at = 20, message_token_count = 1,
       message_metadata = None\<rparr>,
      \<lparr>message_id = 2, message_user_id = 7, message_role = ''assistant'',
       message_content = ''Hello! How are you feeling today?'', message_created_at = 10,
       message_token_count = 8, message_metadata = None\<rparr>]"

definition skewed_db :: db where
  "skewed_db = example_db\<lparr>messages := skewed_messages\<rparr>"

definition demo_service :: llm_service where
  "demo_service = example_service\<lparr>provider := ''demo'', model := ''demo-mock''\<rparr>"

text \<open>A store with six Facts of one user.\<close>

definition six_memories :: "memory list" where
  "six_memories =
     [\<lparr>memory_id = 1, memory_user_id = 7, memory_category = ''health_goal'',
       memory_key = ''primary_goal'', memory_value = ''lose weight'', memory_importance = 3,
       memory_last_accessed_at = 10, memory_created_at = 10\<rparr>,
      \<lparr>memory_id = 2, memory_user_id = 7, memory_category = ''lifestyle'',
       memory_key = ''sleep'', memory_value = ''six hours'', memory_importance = 4,
       memory_last_accessed_at = 20, memory_created_at = 20\<rparr>,
      \<lparr>memory_id = 3, memory_user_id = 7, memory_category = ''lifestyle'',
       memory_key = ''diet'', memory_value = ''vegetarian'', memory_importance = 2,
       memory_last_accessed_at = 30, memory_created_at = 30\<rparr>,
      \<lparr>memory_id = 4, memory_user_id = 7, memory_category = ''concern'',
       memory_key = ''knee'', memory_value = ''pain when running'', memory_importance = 4,
       memory_last_accessed_at = 40, memory_created_at = 40\<rparr>,
      \<lparr>memory_id = 5, memory_user_id = 7, memory_category = ''preference'',
       memory_key = ''exercise'', memory_value = ''yoga'', memory_importance = 1,
       memory_last_accessed_at = 50, memory_created_at = 50\<rparr>,
      \<lparr>memory_id = 6, memory_user_id = 7, memory_category = ''medical_history'',
       memory_key = ''asthma'', memory_value = ''since childhood'', memory_importance = 5,
       memory_last_accessed_at = 60, memory_created_at = 60\<rparr>]"

definition six_db :: db where
  "six_db = example_db\<lparr>memories := six_memories\<rparr>"

section \<open>The memory store\<close>

lemma map_update_first:
  "(\<And>x. g (f x) = g x) \<Longrightarrow> map g (update_first P f xs) = map g xs"
  by (induction xs) auto

lemma filter_update_first_other:
  "(\<And>x. P x \<Longrightarrow> \<not> Q x \<and> \<not> Q (f x)) \<Longrightarrow> filter Q (update_first P f xs) = filter Q xs"
  by (induction xs) auto

lemma filter_update_first_single:
  "(\<And>x. P x \<Longrightarrow> P (f x)) \<Longrightarrow> filter P xs = [e] \<Longrightarrow>
   filter P (update_first P f xs) = [f e]"
  by (induction xs) (auto split: if_splits)

lemma find_None_filter: "find P xs = None \<Longrightarrow> filter P xs = []"
  by (induction xs) (auto split: if_splits)

lemma find_Some_filter_le1:
  "find P xs = Some e \<Longrightarrow> length (filter P xs) \<le> 1 \<Longrightarrow> filter P xs = [e]"
  by (induction xs) (auto split: if_splits simp: le_Suc_eq)

lemma is_fact_key: "is_fact u c k m \<longleftrightarrow> fact_key m = (u, c, k)"
  by (auto simp: is_fact_def fact_key_def)

lemma find_None_key:
  "find (is_fact u c k) xs = None \<Longrightarrow> (u, c, k) \<notin> set (map fact_key xs)"
  by (auto simp: find_None_iff is_fact_key)

lemma distinct_filter_le1:
  "distinct (map f xs) \<Longrightarrow> length (filter (\<lambda>x. f x = a) xs) \<le> 1"
proof (induction xs)
  case Nil
  then show ?case by simp
next
  case (Cons x xs)
  show ?case
  proof (cases "f x = a")
    case True
    from Cons.prems have "f x \<notin> f ` set xs" by simp
    with True have "\<forall>y \<in> set xs. f y \<noteq> a" by blast
    then have "filter (\<lambda>x. f x = a) xs = []" by (simp add: filter_empty_conv)
    with True show ?thesis by simp
  next
    case False
    with Cons show ?thesis by simp
  qed
qed

lemma unique_facts_le1:
  "unique_facts d \<Longrightarrow> length (filter (is_fact u c k) (memories d)) \<le> 1"
  unfolding unique_facts_def is_fact_key [abs_def] by (rule distinct_filter_le1)

lemma memories_create_memory:
  "memories (snd (create_memory d u c k v i)) =
     (case find (is_fact u c k) (memories d) of
        Some e \<Rightarrow> update_first (is_fact u c k)
           (\<lambda>m. m\<lparr>memory_value := v, memory_importance := i,
                   memory_last_accessed_at := utc d (reads d)\<rparr>) (memories d)
      | None \<Rightarrow> memories d @
           [\<lparr>memory_id = next_id (map memory_id (memories d)),
             memory_user_id = u, memory_category = c, memory_key = k,
             memory_value = v, memory_importance = i,
             memory_last_accessed_at = utc d (reads d), memory_created_at = utc d (reads d)\<rparr>])"
  by (simp add: create_memory_def utcnow_def Let_def split: option.splits)

lemma create_memory_other_tables:
  "messages (snd (create_memory d u c k v i)) = messages d \<and>
   protocols (snd (create_memory d u c k v i)) = protocols d \<and>
   typing_indicators (snd (create_memory d u c k v i)) = typing_indicators d"
  by (simp add: create_memory_def utcnow_def Let_def split: option.splits)

lemma create_memory_unique:
  assumes "unique_facts d"
  shows "unique_facts (snd (create_memory d u c k v i))"
proof (cases "find (is_fact u c k) (memories d)")
  case None
  then have "(u, c, k) \<notin> set (map fact_key (memories d))"
    by (rule find_None_key)
  with assms None show ?thesis
    by (simp add: unique_facts_def memories_create_memory fact_key_def)
next
  case (Some e)
  then show ?thesis using assms
    by (simp add: unique_facts_def memories_create_memory map_update_first fact_key_def)
qed

lemma utcnow_memories: "memories (snd (utcnow d)) = memories d"
  by (simp add: utcnow_def)

lemma store_memories_unique:
  "unique_facts d \<Longrightarrow> unique_facts (fst (store_memories d uid items))"
proof (induction d uid items rule: store_memories.induct)
  case (1 d uid)
  then show ?case by simp
next
  case (2 d uid rest)
  then show ?case by simp
next
  case (3 d uid c k i rest)
  then show ?case
    by (simp add: unique_facts_def create_memory_null_value_def utcnow_memories
        split: option.splits)
next
  case (4 d uid c k i rest)
  then show ?case by (simp add: create_memory_unique)
next
  case (5 d uid c k v i rest)
  then show ?case by (simp add: create_memory_unique)
qed

lemma create_memory_result:
  assumes "length (filter (is_fact u c k) (memories d)) \<le> 1"
  shows "filter (is_fact u c k) (memories (snd (create_memory d u c k v i)))
           = [fst (create_memory d u c k v i)]
         \<and> memory_value (fst (create_memory d u c k v i)) = v
         \<and> memory_importance (fst (create_memory d u c k v i)) = i
         \<and> (\<forall>e. filter (is_fact u c k) (memories d) = [e] \<longrightarrow>
                memory_id (fst (create_memory d u c k v i)) = memory_id e)"
proof (cases "find (is_fact u c k) (memories d)")
  case None
  then have "filter (is_fact u c k) (memories d) = []" by (rule find_None_filter)
  with None show ?thesis
    by (simp add: create_memory_def utcnow_def Let_def is_fact_def)
next
  case (Some e)
  from Some assms have single: "filter (is_fact u c k) (memories d) = [e]"
    by (rule find_Some_filter_le1)
  let ?f = "\<lambda>m. m\<lparr>memory_value := v, memory_importance := i,
                   memory_last_accessed_at := utc d (reads d)\<rparr>"
  have "filter (is_fact u c k) (update_first (is_fact u c k) ?f (memories d)) = [?f e]"
    using single by (intro filter_update_first_single) (simp_all add: is_fact_def)
  with Some single show ?thesis
    by (simp add: create_memory_def utcnow_def Let_def)
qed

lemma upsert_twice:
  assumes "length (filter (is_fact u c k) (memories d)) \<le> 1"
  shows "case create_memory d u c k v1 i1 of (m1, d1) \<Rightarrow>
           (case create_memory d1 u c k v2 i2 of (m2, d2) \<Rightarrow>
              filter (is_fact u c k) (memories d2) = [m2] \<and> memory_id m2 = memory_id m1 \<and>
              memory_value m2 = v2 \<and> memory_importance m2 = i2)"
proof -
  obtain m1 d1 where c1: "create_memory d u c k v1 i1 = (m1, d1)"
    by (cases "create_memory d u c k v1 i1")
  obtain m2 d2 where c2: "create_memory d1 u c k v2 i2 = (m2, d2)"
    by (cases "create_memory d1 u c k v2 i2")
  from create_memory_result [OF assms, of v1 i1] c1
  have one: "filter (is_fact u c k) (memories d1) = [m1]" by simp
  then have "length (filter (is_fact u c k) (memories d1)) \<le> 1" by simp
  from create_memory_result [OF this, of v2 i2] c2 one
  have "filter (is_fact u c k) (memories d2) = [m2] \<and> memory_value m2 = v2 \<and>
        memory_importance m2 = i2 \<and> memory_id m2 = memory_id m1" by simp
  with c1 c2 show ?thesis by simp
qed

lemma example_db_unique: "unique_facts example_db"
  by (simp add: unique_facts_def example_db_def example_memories_def fact_key_def)

text \<open>
  C3. A write to the memory store keeps the invariant that at most one Fact exists for a
  triple of user, category and key: if no two rows share a triple before
  \<open>create_memory\<close>, none do after it, and the same holds for the upserts that
  \<open>extract_and_store_memories\<close> performs for whatever the extraction returns.
\<close>

theorem upsert_preserves_unique_facts:
  assumes "unique_facts d"
  shows "unique_facts (snd (create_memory d uid category key val importance)) \<and>
         unique_facts (fst (extract_and_store_memories svc d uid conversation))"
  using assms
  by (simp add: create_memory_unique extract_and_store_memories_def store_memories_unique)

theorem upsert_preserves_unique_facts_witness:
  "unique_facts example_db \<and>
   unique_facts (snd (create_memory example_db 7 ''lifestyle'' ''sleep'' ''eight hours'' 2)) \<and>
   unique_facts (snd (create_memory example_db 8 ''lifestyle'' ''sleep'' ''five hours'' 2))"
  using upsert_preserves_unique_facts [OF example_db_unique, of 7 "''lifestyle''" "''sleep''"
      "''eight hours''" 2]
    upsert_preserves_unique_facts [OF example_db_unique, of 8 "''lifestyle''" "''sleep''"
      "''five hours''" 2]
    example_db_unique
  by simp

text \<open>
  C7. On a store that holds at most one Fact per triple, two calls of \<open>create_memory\<close>
  with the same user, category, key, value and importance leave exactly one Fact for the
  triple, with the identity that the first call returned (which is the identity of the
  Fact that was there before, if there was one). The calls
  \<open>upsert(u, "health_goal", "primary_goal", "lose weight", 3)\<close> and then
  \<open>upsert(u, "health_goal", "primary_goal", "lose 5kg", 4)\<close> leave exactly one Fact for
  the triple, with the identity from the first call, the value \<open>"lose 5kg"\<close> and the
  importance 4.
\<close>

theorem upsert_idempotent_and_scenario_d:
  assumes "unique_facts d"
  shows "(case create_memory d u c k v i of (m1, d1) \<Rightarrow>
            (case create_memory d1 u c k v i of (m2, d2) \<Rightarrow>
               filter (is_fact u c k) (memories d2) = [m2] \<and> memory_id m2 = memory_id m1 \<and>
               memory_value m2 = v \<and> memory_importance m2 = i \<and>
               (\<forall>e. filter (is_fact u c k) (memories d) = [e] \<longrightarrow> memory_id m2 = memory_id e)))
         \<and>
         (case create_memory d u ''health_goal'' ''primary_goal'' ''lose weight'' 3 of
            (m1, d1) \<Rightarrow>
            (case create_memory d1 u ''health_goal'' ''primary_goal'' ''lose 5kg'' 4 of
               (m2, d2) \<Rightarrow>
               filter (is_fact u ''health_goal'' ''primary_goal'') (memories d2) = [m2] \<and>
               memory_id m2 = memory_id m1 \<and>
               memory_value m2 = ''lose 5kg'' \<and> memory_importance m2 = 4))"
proof -
  have le: "length (filter (is_fact u c k) (memories d)) \<le> 1" for c k
    using assms by (rule unique_facts_le1)
  have "\<forall>e. filter (is_fact u c k) (memories d) = [e] \<longrightarrow>
          memory_id (fst (create_memory d u c k v i)) = memory_id e"
    using create_memory_result [OF le, of c k v i] by blast
  moreover have "case create_memory d u c k v i of (m1, d1) \<Rightarrow>
           (case create_memory d1 u c k v i of (m2, d2) \<Rightarrow>
              filter (is_fact u c k) (memories d2) = [m2] \<and> memory_id m2 = memory_id m1 \<and>
              memory_value m2 = v \<and> memory_importance m2 = i)"
    by (rule upsert_twice [OF le])
  ultimately have first: "case create_memory d u c k v i of (m1, d1) \<Rightarrow>
            (case create_memory d1 u c k v i of (m2, d2) \<Rightarrow>
               filter (is_fact u c k) (memories d2) = [m2] \<and> memory_id m2 = memory_id m1 \<and>
               memory_value m2 = v \<and> memory_importance m2 = i \<and>
               (\<forall>e. filter (is_fact u c k) (memories d) = [e] \<longrightarrow> memory_id m2 = memory_id e))"
    by (auto split: prod.splits)
  have second: "case create_memory d u ''health_goal'' ''primary_goal'' ''lose weight'' 3 of
            (m1, d1) \<Rightarrow>
            (case create_memory d1 u ''health_goal'' ''primary_goal'' ''lose 5kg'' 4 of
               (m2, d2) \<Rightarrow>
               filter (is_fact u ''health_goal'' ''primary_goal'') (memories d2) = [m2] \<and>
               memory_id m2 = memory_id m1 \<and>
               memory_value m2 = ''lose 5kg'' \<and> memory_importance m2 = 4)"
    by (rule upsert_twice [OF le])
  from first second show ?thesis by (rule conjI)
qed

theorem upsert_idempotent_and_scenario_d_witness:
  "unique_facts example_db \<and>
   (case create_memory example_db 7 ''health_goal'' ''primary_goal'' ''lose weight'' 3 of
      (m1, d1) \<Rightarrow>
      (case create_memory d1 7 ''health_goal'' ''primary_goal'' ''lose 5kg'' 4 of
         (m2, d2) \<Rightarrow>
         filter (is_fact 7 ''health_goal'' ''primary_goal'') (memories d2) = [m2] \<and>
         memory_id m2 = memory_id m1 \<and>
         memory_value m2 = ''lose 5kg'' \<and> memory_importance m2 = 4))"
  using upsert_idempotent_and_scenario_d [OF example_db_unique, of 7 "''lifestyle''" "''sleep''"
      "''six hours''" 4]
    example_db_unique
  by simp

text \<open>
  C10. \<open>create_memory\<close> creates or changes only the Fact of its own triple: the Facts
  with any other triple of user, category and key, of this user or another, are after
  the call the rows they were before, in every field and in the same order; the other
  tables are as they were.
\<close>

theorem create_memory_frame:
  "filter (\<lambda>m. fact_key m \<noteq> (uid, category, key))
     (memories (snd (create_memory d uid category key val importance))) =
   filter (\<lambda>m. fact_key m \<noteq> (uid, category, key)) (memories d) \<and>
   messages (snd (create_memory d uid category key val importance)) = messages d \<and>
   protocols (snd (create_memory d uid category key val importance)) = protocols d \<and>
   typing_indicators (snd (create_memory d uid category key val importance)) =
     typing_indicators d"
proof -
  have "filter (\<lambda>m. fact_key m \<noteq> (uid, category, key))
          (memories (snd (create_memory d uid category key val importance))) =
        filter (\<lambda>m. fact_key m \<noteq> (uid, category, key)) (memories d)"
  proof (cases "find (is_fact uid category key) (memories d)")
    case None
    then show ?thesis by (simp add: memories_create_memory fact_key_def)
  next
    case (Some e)
    have "filter (\<lambda>m. fact_key m \<noteq> (uid, category, key))
            (update_first (is_fact uid category key)
               (\<lambda>m. m\<lparr>memory_value := val, memory_importance := importance,
                       memory_last_accessed_at := utc d (reads d)\<rparr>) (memories d)) =
          filter (\<lambda>m. fact_key m \<noteq> (uid, category, key)) (memories d)"
      by (rule filter_update_first_other) (simp add: is_fact_def fact_key_def)
    with Some show ?thesis by (simp add: memories_create_memory)
  qed
  then show ?thesis by (simp add: create_memory_other_tables)
qed

section \<open>The token budget\<close>

lemma count_tokens_nonneg: "0 \<le> count_tokens svc text"
  by (simp add: count_tokens_def pos_imp_zdiv_nonneg_iff split: option.splits)

lemma truncate_loop_shape:
  "\<exists>k \<le> length rs. truncate_loop svc a rs acc cur = rev (take k rs) @ acc"
proof (induction rs arbitrary: acc cur)
  case Nil
  then show ?case by simp
next
  case (Cons m rs)
  show ?case
  proof (cases "cur + count_tokens svc (content m) \<le> a")
    case True
    from Cons.IH [of "m # acc" "cur + count_tokens svc (content m)"]
    obtain k where "k \<le> length rs"
      and "truncate_loop svc a rs (m # acc) (cur + count_tokens svc (content m)) =
           rev (take k rs) @ m # acc" by blast
    with True have "Suc k \<le> length (m # rs) \<and>
        truncate_loop svc a (m # rs) acc cur = rev (take (Suc k) (m # rs)) @ acc"
      by (simp add: Let_def)
    then show ?thesis by blast
  next
    case False
    then have "truncate_loop svc a (m # rs) acc cur = rev (take 0 (m # rs)) @ acc"
      by (simp add: Let_def)
    then show ?thesis by blast
  qed
qed


lemma truncate_loop_tokens:
  "cur = tokens_of svc acc \<Longrightarrow> acc = [] \<or> cur \<le> a \<Longrightarrow>
   truncate_loop svc a rs acc cur = [] \<or> tokens_of svc (truncate_loop svc a rs acc cur) \<le> a"
proof (induction rs arbitrary: acc cur)
  case Nil
  then show ?case by auto
next
  case (Cons m rs)
  show ?case
  proof (cases "cur + count_tokens svc (content m) \<le> a")
    case True
    have "cur + count_tokens svc (content m) = tokens_of svc (m # acc)"
      using Cons.prems(1) by (simp add: tokens_of_def)
    from Cons.IH [OF this] True show ?thesis by (simp add: Let_def)
  next
    case False
    with Cons.prems show ?thesis by (auto simp: Let_def)
  qed
qed

lemma truncate_loop_keeps_acc:
  "acc \<noteq> [] \<Longrightarrow> truncate_loop svc a rs acc cur \<noteq> []"
  using truncate_loop_shape [of rs svc a acc cur] by auto

lemma truncate_loop_last_fits:
  assumes "msgs \<noteq> []" and "count_tokens svc (content (last msgs)) \<le> a"
  shows "truncate_loop svc a (rev msgs) [] 0 \<noteq> []"
proof -
  from assms(1) obtain rs where r: "rev msgs = last msgs # rs"
    by (cases msgs rule: rev_cases) auto
  have "truncate_loop svc a (last msgs # rs) [] 0 \<noteq> []"
    using assms(2) by (simp add: Let_def truncate_loop_keeps_acc)
  then show ?thesis unfolding r .
qed



lemma tokens_of_nonneg: "0 \<le> tokens_of svc ms"
  by (induction ms) (simp_all add: tokens_of_def count_tokens_nonneg)






text \<open>
  C1, as the code has it. If the available budget is not negative and the history is
  empty, or if the most recent message of the history fits the available budget, then
  \<open>truncate_context\<close> returns a sequence whose token count, added to the token count of
  the instruction text and to \<open>max_response_tokens\<close>, does not exceed
  \<open>max_context_tokens\<close>. Whenever the history is not empty and \<open>truncate_context\<close>
  returns, the returned sequence is not empty.
\<close>

theorem truncate_context_budget:
  "((H = [] \<and> 0 \<le> available svc s) \<or>
    (H \<noteq> [] \<and> count_tokens svc (content (last H)) \<le> available svc s)
    \<longrightarrow> (\<exists>r. truncate_context svc H s None = Inr r \<and>
             tokens_of svc r + count_tokens svc s + max_response_tokens svc
               \<le> max_context_tokens svc)) \<and>
   (\<forall>r. H \<noteq> [] \<and> truncate_context svc H s None = Inr r \<longrightarrow> r \<noteq> [])"
proof (intro conjI impI allI)
  assume fits: "(H = [] \<and> 0 \<le> available svc s) \<or>
    (H \<noteq> [] \<and> count_tokens svc (content (last H)) \<le> available svc s)"
  let ?t = "truncate_loop svc (available svc s) (rev H) [] 0"
  have "\<not> (?t = [] \<and> H \<noteq> [])"
    using fits truncate_loop_last_fits [of H svc "available svc s"] by blast
  then have ret: "truncate_context svc H s None = Inr ?t"
    by (auto simp: truncate_context_def available_def Let_def)
  have "?t = [] \<or> tokens_of svc ?t \<le> available svc s"
    by (rule truncate_loop_tokens) (simp_all add: tokens_of_def)
  moreover have "?t = [] \<Longrightarrow> 0 \<le> available svc s"
    using fits truncate_loop_last_fits [of H svc "available svc s"] by blast
  ultimately have "tokens_of svc ?t \<le> available svc s"
    by (auto simp: tokens_of_def)
  then have "tokens_of svc ?t + count_tokens svc s + max_response_tokens svc
               \<le> max_context_tokens svc"
    by (simp add: available_def)
  with ret show "\<exists>r. truncate_context svc H s None = Inr r \<and>
             tokens_of svc r + count_tokens svc s + max_response_tokens svc
               \<le> max_context_tokens svc" by blast
next
  fix r
  assume "H \<noteq> [] \<and> truncate_context svc H s None = Inr r"
  then show "r \<noteq> []"
    by (auto simp: truncate_context_def Let_def split: if_splits)
qed

text \<open>With a budget below zero no result can keep the bound, whatever the tokenizer
  counts.\<close>

lemma negative_budget_exceeds:
  assumes "available svc s < 0" and "truncate_context svc H s None = Inr r"
  shows "\<not> (tokens_of svc r + count_tokens svc s + max_response_tokens svc
              \<le> max_context_tokens svc)"
  using assms(1) tokens_of_nonneg [of svc r] by (simp add: available_def)

text \<open>
  C1 as stated fails. With the default limits of 8000 and 1000 tokens, an instruction
  text that alone exceeds 7000 tokens leaves a budget below zero. The most recent message
  is kept all the same, cut down to the ellipsis, and the total exceeds the limit: here
  10000 tokens of instruction text, 1000 of reply and 1 of history.
\<close>

theorem truncate_context_budget_counterexample:
  "truncate_context example_service [greeting] long_prompt None =
     Inr [\<lparr>role = ''user'', content = ''...''\<rparr>] \<and>
   \<not> (tokens_of example_service [\<lparr>role = ''user'', content = ''...''\<rparr>] +
       count_tokens example_service long_prompt + max_response_tokens example_service
         \<le> max_context_tokens example_service)"
  by (simp add: truncate_context_def example_service_def greeting_def long_prompt_def
      count_tokens_def sample_tokenizer_def tokens_of_def Let_def py_trunc_div_def
      py_slice_to_def)



lemma short_history_truncated:
  "truncate_context example_service short_history onboarding_prompt None = Inr [greeting]"
  by (simp add: truncate_context_def example_service_def short_history_def greeting_def
      onboarding_prompt_def count_tokens_def sample_tokenizer_def Let_def)

lemma short_history_fits:
  "short_history \<noteq> [] \<and>
   count_tokens example_service (content (last short_history))
     \<le> available example_service onboarding_prompt"
  by (simp add: available_def example_service_def short_history_def greeting_def
      onboarding_prompt_def count_tokens_def sample_tokenizer_def)

text \<open>The division by a token count of zero is reached: with a budget below zero, a
  last message with an empty content, which counts zero tokens, does not fit, and the
  ratio of characters per token divides by that zero.\<close>

lemma truncate_context_raises:
  "truncate_context example_service [\<lparr>role = ''assistant'', content = []\<rparr>] long_prompt None =
     Inl ZeroDivisionError"
  by (simp add: truncate_context_def example_service_def long_prompt_def count_tokens_def
      sample_tokenizer_def Let_def)


theorem truncate_context_budget_witness:
  "short_history \<noteq> [] \<and>
   count_tokens example_service (content (last short_history))
     \<le> available example_service onboarding_prompt \<and>
   truncate_context example_service short_history onboarding_prompt None = Inr [greeting] \<and>
   tokens_of example_service [greeting] +
     count_tokens example_service onboarding_prompt + max_response_tokens example_service
     \<le> max_context_tokens example_service"
proof -
  from truncate_context_budget [of short_history example_service onboarding_prompt]
    short_history_fits
  obtain r where "truncate_context example_service short_history onboarding_prompt None = Inr r"
    and "tokens_of example_service r + count_tokens example_service onboarding_prompt +
         max_response_tokens example_service \<le> max_context_tokens example_service"
    by blast
  with short_history_truncated short_history_fits show ?thesis by simp
qed

section \<open>Protocol matching\<close>

lemma py_in_sublist: "py_in needle haystack \<longleftrightarrow> sublist needle haystack"
  by (induction haystack) (simp_all add: sublist_Cons_right)

lemma list_ex_occurs:
  "list_ex (\<lambda>w. py_in (lower w) (lower msg)) ws \<longleftrightarrow> (\<exists>w \<in> set ws. occurs_in w msg)"
  by (simp add: list_ex_iff py_in_sublist occurs_in_def)

lemma match_loop_step:
  "match_loop (lower msg) (p # ps) matched =
     match_loop (lower msg) ps (if loop_matches msg p then matched @ [summary_of p] else matched)"
  by (simp add: list_ex_occurs Let_def trigger_phrases_of_def [symmetric]
      loop_matches_def keyword_hit_def phrase_hit_def)

lemma match_loop_filter:
  "match_loop (lower msg) ps matched = matched @ map summary_of (filter (loop_matches msg) ps)"
proof (induction ps arbitrary: matched)
  case Nil
  then show ?case by simp
next
  case (Cons p ps)
  show ?case
    unfolding match_loop_step by (simp add: Cons.IH)
qed

lemma active_protocols_set:
  "set (active_protocols d) = {p \<in> set (protocols d). protocol_is_active p}"
  by (simp add: active_protocols_def)

lemma active_protocols_sorted:
  "sorted_wrt (\<lambda>p q. protocol_priority p \<ge> protocol_priority q) (active_protocols d)"
proof -
  have "sorted (map (\<lambda>p. - protocol_priority p) (active_protocols d))"
    by (simp add: active_protocols_def)
  then show ?thesis by (simp add: sorted_map)
qed

lemma filter_active_matches:
  "filter (loop_matches msg) (active_protocols d) =
   filter (protocol_matches msg) (active_protocols d)"
  by (rule filter_cong) (auto simp: active_protocols_set loop_matches_def protocol_matches_def)

lemma match_protocols_eq:
  "match_protocols d msg prof =
     take 3 (map summary_of (filter (protocol_matches msg) (active_protocols d)))"
  by (simp add: match_protocols_def match_loop_filter filter_active_matches)

lemma sorted_wrt_filter_take:
  "sorted_wrt R xs \<Longrightarrow> sorted_wrt R (take n (filter P xs))"
  by (simp add: sorted_wrt_filter)

text \<open>
  C4. For every message and every stored set of protocols, \<open>match_protocols\<close> returns at
  most 3 summaries, in descending order of priority. Every summary returned is that of a
  stored protocol that is active, has a keyword occurring in the message as a substring
  without regard to case and, if it declares trigger phrases, has a trigger phrase
  occurring likewise. The result is the first three, in descending priority, of the
  protocols that match in this sense, and for a protocol without trigger phrases to match
  is to be active and to have a keyword occur.
\<close>

theorem match_protocols_correct:
  "length (match_protocols d msg prof) \<le> 3 \<and>
   sorted_wrt (\<lambda>a b. summary_priority a \<ge> summary_priority b) (match_protocols d msg prof) \<and>
   (\<forall>s \<in> set (match_protocols d msg prof).
      \<exists>p \<in> set (protocols d).
        s = summary_of p \<and> protocol_is_active p \<and>
        (\<exists>kw \<in> set (protocol_keywords p). occurs_in kw msg) \<and>
        (trigger_phrases_of p \<noteq> [] \<longrightarrow> (\<exists>ph \<in> set (trigger_phrases_of p). occurs_in ph msg))) \<and>
   match_protocols d msg prof =
     take 3 (map summary_of (filter (protocol_matches msg) (active_protocols d))) \<and>
   (\<forall>p. trigger_phrases_of p = [] \<longrightarrow>
        (protocol_matches msg p \<longleftrightarrow>
           protocol_is_active p \<and> (\<exists>kw \<in> set (protocol_keywords p). occurs_in kw msg)))"
proof (intro conjI)
  show "length (match_protocols d msg prof) \<le> 3"
    by (simp add: match_protocols_def)
  have "sorted_wrt (\<lambda>p q. protocol_priority p \<ge> protocol_priority q)
          (take 3 (filter (protocol_matches msg) (active_protocols d)))"
    using active_protocols_sorted by (rule sorted_wrt_filter_take)
  then show "sorted_wrt (\<lambda>a b. summary_priority a \<ge> summary_priority b)
          (match_protocols d msg prof)"
    by (simp add: match_protocols_eq take_map sorted_wrt_map summary_of_def)
  show "\<forall>s \<in> set (match_protocols d msg prof).
      \<exists>p \<in> set (protocols d).
        s = summary_of p \<and> protocol_is_active p \<and>
        (\<exists>kw \<in> set (protocol_keywords p). occurs_in kw msg) \<and>
        (trigger_phrases_of p \<noteq> [] \<longrightarrow> (\<exists>ph \<in> set (trigger_phrases_of p). occurs_in ph msg))"
  proof
    fix s assume "s \<in> set (match_protocols d msg prof)"
    then have "s \<in> set (map summary_of (filter (protocol_matches msg) (active_protocols d)))"
      unfolding match_protocols_eq by (rule in_set_takeD)
    then obtain p where "s = summary_of p" "protocol_matches msg p" "p \<in> set (active_protocols d)"
      by auto
    then show "\<exists>p \<in> set (protocols d).
        s = summary_of p \<and> protocol_is_active p \<and>
        (\<exists>kw \<in> set (protocol_keywords p). occurs_in kw msg) \<and>
        (trigger_phrases_of p \<noteq> [] \<longrightarrow> (\<exists>ph \<in> set (trigger_phrases_of p). occurs_in ph msg))"
      by (auto simp: active_protocols_set protocol_matches_def keyword_hit_def phrase_hit_def)
  qed
  show "match_protocols d msg prof =
     take 3 (map summary_of (filter (protocol_matches msg) (active_protocols d)))"
    by (rule match_protocols_eq)
  show "\<forall>p. trigger_phrases_of p = [] \<longrightarrow>
        (protocol_matches msg p \<longleftrightarrow>
           protocol_is_active p \<and> (\<exists>kw \<in> set (protocol_keywords p). occurs_in kw msg))"
    by (simp add: protocol_matches_def keyword_hit_def)
qed

lemma example_match:
  "match_protocols protocol_db ''I have FEVER and severe chills'' example_profile =
     [\<lparr>summary_name = ''Emergency Symptoms'', summary_category = ''emergency'',
       summary_response_template = ''Please seek immediate medical attention'',
       summary_priority = 10\<rparr>,
      \<lparr>summary_name = ''Fever Management'', summary_category = ''symptom'',
       summary_response_template = ''For fever management: rest and stay hydrated'',
       summary_priority = 8\<rparr>]"
  by code_simp


theorem match_protocols_correct_witness:
  "match_protocols protocol_db ''I have FEVER and severe chills'' example_profile =
     [\<lparr>summary_name = ''Emergency Symptoms'', summary_category = ''emergency'',
       summary_response_template = ''Please seek immediate medical attention'',
       summary_priority = 10\<rparr>,
      \<lparr>summary_name = ''Fever Management'', summary_category = ''symptom'',
       summary_response_template = ''For fever management: rest and stay hydrated'',
       summary_priority = 8\<rparr>] \<and>
   length (match_protocols protocol_db ''I have FEVER and severe chills'' example_profile) \<le> 3 \<and>
   sorted_wrt (\<lambda>a b. summary_priority a \<ge> summary_priority b)
     (match_protocols protocol_db ''I have FEVER and severe chills'' example_profile)"
proof (intro conjI)
  note t = match_protocols_correct [of protocol_db "''I have FEVER and severe chills''"
      example_profile]
  show "match_protocols protocol_db ''I have FEVER and severe chills'' example_profile =
     [\<lparr>summary_name = ''Emergency Symptoms'', summary_category = ''emergency'',
       summary_response_template = ''Please seek immediate medical attention'',
       summary_priority = 10\<rparr>,
      \<lparr>summary_name = ''Fever Management'', summary_category = ''symptom'',
       summary_response_template = ''For fever management: rest and stay hydrated'',
       summary_priority = 8\<rparr>]"
    by (rule example_match)
  from t show "length (match_protocols protocol_db ''I have FEVER and severe chills''
      example_profile) \<le> 3" by (rule conjunct1)
  from t show "sorted_wrt (\<lambda>a b. summary_priority a \<ge> summary_priority b)
     (match_protocols protocol_db ''I have FEVER and severe chills'' example_profile)"
    by blast
qed

section \<open>Reading the memory store\<close>

lemma touch_fields:
  "reads (touch i d) = Suc (reads d) \<and> utc (touch i d) = utc d \<and>
   memories (touch i d) =
     (memories d)[i := (memories d ! i)\<lparr>memory_last_accessed_at := utc d (reads d)\<rparr>] \<and>
   messages (touch i d) = messages d \<and> protocols (touch i d) = protocols d \<and>
   typing_indicators (touch i d) = typing_indicators d"
  by (simp add: touch_def utcnow_def)

lemma fold_touch:
  assumes "distinct (map fst sel)" and "\<forall>p \<in> set sel. fst p < length (memories d)"
  shows "reads (fold (\<lambda>(i, m). touch i) sel d) = reads d + length sel \<and>
         utc (fold (\<lambda>(i, m). touch i) sel d) = utc d \<and>
         length (memories (fold (\<lambda>(i, m). touch i) sel d)) = length (memories d) \<and>
         (\<forall>j < length sel.
            memories (fold (\<lambda>(i, m). touch i) sel d) ! fst (sel ! j) =
              (memories d ! fst (sel ! j))\<lparr>memory_last_accessed_at := utc d (reads d + j)\<rparr>) \<and>
         (\<forall>i. i \<notin> fst ` set sel \<longrightarrow>
            memories (fold (\<lambda>(i, m). touch i) sel d) ! i = memories d ! i)"
  using assms
proof (induction sel arbitrary: d)
  case Nil
  then show ?case by simp
next
  case (Cons p sel)
  obtain i m where p: "p = (i, m)" by (cases p)
  let ?d1 = "touch i d"
  let ?d' = "fold (\<lambda>(i, m). touch i) sel ?d1"
  have i_notin: "i \<notin> fst ` set sel" and dist: "distinct (map fst sel)"
    using Cons.prems(1) p by auto
  have i_lt: "i < length (memories d)" using Cons.prems(2) p by simp
  have len1: "length (memories ?d1) = length (memories d)" by (simp add: touch_fields)
  have bound: "\<forall>q \<in> set sel. fst q < length (memories ?d1)"
    using Cons.prems(2) len1 by simp
  note ih = Cons.IH [OF dist bound]
  have other1: "k \<noteq> i \<Longrightarrow> memories ?d1 ! k = memories d ! k" for k
    by (simp add: touch_fields)
  have at_i: "memories ?d1 ! i = (memories d ! i)\<lparr>memory_last_accessed_at := utc d (reads d)\<rparr>"
    using i_lt by (simp add: touch_fields)
  have fold_eq: "fold (\<lambda>(i, m). touch i) (p # sel) d = ?d'" by (simp add: p)
  have "\<forall>j < length (p # sel).
          memories ?d' ! fst ((p # sel) ! j) =
            (memories d ! fst ((p # sel) ! j))\<lparr>memory_last_accessed_at := utc d (reads d + j)\<rparr>"
  proof (intro allI impI)
    fix j assume j: "j < length (p # sel)"
    show "memories ?d' ! fst ((p # sel) ! j) =
            (memories d ! fst ((p # sel) ! j))\<lparr>memory_last_accessed_at := utc d (reads d + j)\<rparr>"
    proof (cases j)
      case 0
      with ih i_notin at_i show ?thesis by (simp add: p)
    next
      case (Suc j')
      with j have j': "j' < length sel" by simp
      then have "fst (sel ! j') \<in> fst ` set sel" by simp
      with i_notin have "fst (sel ! j') \<noteq> i" by metis
      with ih j' Suc other1 show ?thesis by (simp add: touch_fields)
    qed
  qed
  moreover have "\<forall>k. k \<notin> fst ` set (p # sel) \<longrightarrow> memories ?d' ! k = memories d ! k"
    using ih other1 by (simp add: p)
  moreover have "reads ?d' = reads d + length (p # sel)" "utc ?d' = utc d"
      "length (memories ?d') = length (memories d)"
    using ih by (simp_all add: touch_fields)
  ultimately show ?case unfolding fold_eq by blast
qed

lemma query_memories_rows:
  "p \<in> set (query_memories d uid n) \<Longrightarrow>
     fst p < length (memories d) \<and> memories d ! fst p = snd p \<and> memory_user_id (snd p) = uid"
proof -
  assume "p \<in> set (query_memories d uid n)"
  then have "p \<in> set (filter (\<lambda>(i, m). memory_user_id m = uid) (enumerate 0 (memories d)))"
    unfolding query_memories_def by (auto dest: in_set_takeD)
  then show ?thesis by (auto simp: in_set_enumerate_eq)
qed

lemma query_memories_distinct: "distinct (map fst (query_memories d uid n))"
proof -
  let ?xs = "filter (\<lambda>(i, m). memory_user_id m = uid) (enumerate 0 (memories d))"
  let ?k = "\<lambda>(i, m). (- memory_importance m, - int (memory_last_accessed_at m))"
  have "distinct (map fst ?xs)"
    by (simp add: distinct_map_filter)
  then have "distinct (map fst (sort_key ?k ?xs))"
    by (simp add: distinct_map)
  then have "distinct (take n (map fst (sort_key ?k ?xs)))"
    by (rule distinct_take)
  then show ?thesis by (simp add: query_memories_def take_map)
qed

lemma query_memories_sorted: "sorted_wrt ranks_before (map snd (query_memories d uid n))"
proof -
  let ?xs = "filter (\<lambda>(i, m). memory_user_id m = uid) (enumerate 0 (memories d))"
  let ?k = "\<lambda>(i, m). (- memory_importance m, - int (memory_last_accessed_at m))"
  have "sorted (map ?k (sort_key ?k ?xs))" by (rule sorted_sort_key)
  then have "sorted_wrt (\<lambda>x y. ?k x \<le> ?k y) (sort_key ?k ?xs)"
    by (simp add: sorted_map)
  then have "sorted_wrt (\<lambda>x y. ?k x \<le> ?k y) (query_memories d uid n)"
    unfolding query_memories_def by (rule sorted_wrt_take)
  then have "sorted_wrt (\<lambda>x y. ranks_before (snd x) (snd y)) (query_memories d uid n)"
    by (rule sorted_wrt_mono_rel [rotated]) (auto simp: ranks_before_def)
  then show ?thesis by (simp add: sorted_wrt_map)
qed

text \<open>
  C6. For every user and limit \<open>n\<close>, \<open>get_relevant_memories\<close> returns at most \<open>n\<close> Facts:
  the dictionaries of the rows that the query selects. These rows are rows of the user,
  ordered by importance descending and then by time of last access descending. As a side
  effect the call sets the time of last access of every returned Fact to the reading of
  the clock taken for it during the call, the \<open>j\<close>-th row getting the \<open>j\<close>-th reading, and
  leaves its other fields as they were.
\<close>

theorem get_relevant_memories_correct:
  "length (fst (get_relevant_memories d uid n)) \<le> n \<and>
   fst (get_relevant_memories d uid n) = map (memory_to_dict \<circ> snd) (query_memories d uid n) \<and>
   sorted_wrt ranks_before (map snd (query_memories d uid n)) \<and>
   (\<forall>p \<in> set (query_memories d uid n).
      fst p < length (memories d) \<and> memories d ! fst p = snd p \<and>
      memory_user_id (snd p) = uid) \<and>
   (\<forall>j < length (query_memories d uid n).
      memories (snd (get_relevant_memories d uid n)) ! fst (query_memories d uid n ! j) =
        (snd (query_memories d uid n ! j))\<lparr>memory_last_accessed_at := utc d (reads d + j)\<rparr>) \<and>
   reads (snd (get_relevant_memories d uid n)) = reads d + length (query_memories d uid n)"
proof -
  let ?sel = "query_memories d uid n"
  have rows: "\<forall>p \<in> set ?sel. fst p < length (memories d) \<and> memories d ! fst p = snd p \<and>
      memory_user_id (snd p) = uid"
    using query_memories_rows by blast
  then have bound: "\<forall>p \<in> set ?sel. fst p < length (memories d)" by blast
  note ft = fold_touch [OF query_memories_distinct bound]
  have len: "length (fst (get_relevant_memories d uid n)) \<le> n"
    by (simp add: get_relevant_memories_def Let_def query_memories_def)
  have res: "fst (get_relevant_memories d uid n) = map (memory_to_dict \<circ> snd) ?sel"
    by (simp add: get_relevant_memories_def Let_def)
  have snd_eq: "snd (get_relevant_memories d uid n) = fold (\<lambda>(i, m). touch i) ?sel d"
    by (simp add: get_relevant_memories_def Let_def)
  have touched: "\<forall>j < length ?sel.
      memories (snd (get_relevant_memories d uid n)) ! fst (?sel ! j) =
        (snd (?sel ! j))\<lparr>memory_last_accessed_at := utc d (reads d + j)\<rparr>"
  proof (intro allI impI)
    fix j assume j: "j < length ?sel"
    then have "?sel ! j \<in> set ?sel" by simp
    with rows have "memories d ! fst (?sel ! j) = snd (?sel ! j)" by blast
    with ft j show "memories (snd (get_relevant_memories d uid n)) ! fst (?sel ! j) =
        (snd (?sel ! j))\<lparr>memory_last_accessed_at := utc d (reads d + j)\<rparr>"
      unfolding snd_eq by simp
  qed
  have rd: "reads (snd (get_relevant_memories d uid n)) = reads d + length ?sel"
    unfolding snd_eq using ft by blast
  from len res query_memories_sorted rows touched rd show ?thesis by blast
qed

lemma example_query:
  "query_memories example_db 7 2 =
     [(3, \<lparr>memory_id = 4, memory_user_id = 7, memory_category = ''concern'',
           memory_key = ''knee'', memory_value = ''pain when running'', memory_importance = 4,
           memory_last_accessed_at = 40, memory_created_at = 40\<rparr>),
      (1, \<lparr>memory_id = 2, memory_user_id = 7, memory_category = ''lifestyle'',
           memory_key = ''sleep'', memory_value = ''six hours'', memory_importance = 4,
           memory_last_accessed_at = 20, memory_created_at = 20\<rparr>)]"
  by code_simp


theorem get_relevant_memories_correct_witness:
  "length (fst (get_relevant_memories example_db 7 2)) \<le> 2 \<and>
   fst (get_relevant_memories example_db 7 2) =
     [\<lparr>dict_category = ''concern'', dict_key = ''knee'', dict_value = ''pain when running'',
       dict_importance = 4\<rparr>,
      \<lparr>dict_category = ''lifestyle'', dict_key = ''sleep'', dict_value = ''six hours'',
       dict_importance = 4\<rparr>] \<and>
   memory_last_accessed_at (memories (snd (get_relevant_memories example_db 7 2)) ! 3) = 1000 \<and>
   memory_last_accessed_at (memories (snd (get_relevant_memories example_db 7 2)) ! 1) = 1001"
proof -
  note t = get_relevant_memories_correct [of example_db 7 2]
  from t have len: "length (fst (get_relevant_memories example_db 7 2)) \<le> 2" by blast
  from t have "fst (get_relevant_memories example_db 7 2) =
      map (memory_to_dict \<circ> snd) (query_memories example_db 7 2)" by blast
  then have res: "fst (get_relevant_memories example_db 7 2) =
     [\<lparr>dict_category = ''concern'', dict_key = ''knee'', dict_value = ''pain when running'',
       dict_importance = 4\<rparr>,
      \<lparr>dict_category = ''lifestyle'', dict_key = ''sleep'', dict_value = ''six hours'',
       dict_importance = 4\<rparr>]"
    by (simp add: example_query memory_to_dict_def)
  from t have touched: "\<forall>j < length (query_memories example_db 7 2).
      memories (snd (get_relevant_memories example_db 7 2)) !
        fst (query_memories example_db 7 2 ! j) =
        (snd (query_memories example_db 7 2 ! j))
          \<lparr>memory_last_accessed_at := utc example_db (reads example_db + j)\<rparr>" by blast
  have clock: "utc example_db (reads example_db + j) = 1000 + j"
      "utc example_db (reads example_db) = 1000"
      "utc example_db (Suc (reads example_db)) = 1001" for j
    by (simp_all add: example_db_def example_clock_def)
  from touched [rule_format, of 0]
  have first: "memory_last_accessed_at
      (memories (snd (get_relevant_memories example_db 7 2)) ! 3) = 1000"
    by (simp add: example_query clock)
  from touched [rule_format, of 1]
  have second: "memory_last_accessed_at
      (memories (snd (get_relevant_memories example_db 7 2)) ! 1) = 1001"
    by (simp add: example_query clock)
  from len res first second show ?thesis by blast
qed

section \<open>Pagination\<close>

lemma newest_first_sorted:
  "sorted_wrt (\<lambda>a b. message_created_at a \<ge> message_created_at b) (newest_first ms)"
proof -
  have "sorted (map (\<lambda>m. - int (message_created_at m)) (newest_first ms))"
    unfolding newest_first_def by (rule sorted_sort_key)
  then show ?thesis by (simp add: sorted_map)
qed

lemma newest_first_set: "set (newest_first ms) = set ms"
  by (simp add: newest_first_def)

lemma newest_first_length: "length (newest_first ms) = length ms"
  by (simp add: newest_first_def)

lemma query_candidates:
  "(case before_id of
      None \<Rightarrow> filter (\<lambda>m. message_user_id m = uid) (messages d)
    | Some b \<Rightarrow> (if b \<noteq> 0
                 then filter (\<lambda>m. message_id m < b)
                        (filter (\<lambda>m. message_user_id m = uid) (messages d))
                 else filter (\<lambda>m. message_user_id m = uid) (messages d)))
   = candidates d uid before_id"
  by (auto simp: candidates_def split: option.splits intro: filter_cong)

lemma fetched_has_more: "(l < length (take (l + 1) xs)) = (l < length xs)"
  by auto

lemma page_of_fetched:
  "(if l < length (take (l + 1) xs) then take l (take (l + 1) xs) else take (l + 1) xs) = take l xs"
proof (cases "l < length xs")
  case True
  then show ?thesis by (simp add: min_def)
next
  case False
  then show ?thesis by simp
qed

lemma page_of_candidates:
  "(if l < length cs then take l (take (l + 1) (newest_first cs))
    else take (l + 1) (newest_first cs)) = take l (newest_first cs)"
  using page_of_fetched [of l "newest_first cs"]
  by (simp only: fetched_has_more newest_first_length)

lemma get_messages_unfold:
  "get_messages d uid l b =
     \<lparr>list_messages = map model_validate (take l (newest_first (candidates d uid b))),
      list_total = length (filter (\<lambda>m. message_user_id m = uid) (messages d)),
      list_has_more = (l < length (candidates d uid b)),
      list_next_cursor =
        (if take l (newest_first (candidates d uid b)) \<noteq> [] \<and> l < length (candidates d uid b)
         then Some (message_id (last (take l (newest_first (candidates d uid b)))))
         else None)\<rparr>"
  unfolding get_messages_def Let_def query_candidates fetched_has_more newest_first_length
    page_of_candidates ..


text \<open>
  C9, as the code has it. The endpoint refuses a limit outside 1 to 100 with status 400.
  Otherwise it returns the first \<open>limit\<close> of the user's messages in descending order of
  creation time, taken among those with an id below \<open>before_id\<close> when a cursor other than
  0 is supplied: at most \<open>limit\<close> items, each a message of the user (below the cursor).
  \<open>has_more\<close> holds exactly when messages remain beyond the returned batch, and
  \<open>next_cursor\<close> is the id of the last returned item exactly when more remain and is
  absent otherwise.
\<close>

theorem api_get_messages_page:
  "(limit < 1 \<or> limit > 100 \<longrightarrow>
      api_get_messages d u limit b = Inl (HTTPException 400 ''Limit must be between 1 and 100'')) \<and>
   (1 \<le> limit \<and> limit \<le> 100 \<longrightarrow>
      (\<exists>r. api_get_messages d u limit b = Inr r \<and>
           list_messages r =
             map model_validate (take (nat limit) (newest_first (candidates d (user_id u) b))) \<and>
           length (list_messages r) \<le> nat limit \<and>
           sorted_wrt (\<lambda>x y. resp_created_at x \<ge> resp_created_at y) (list_messages r) \<and>
           (\<forall>x \<in> set (list_messages r).
              \<exists>m \<in> set (messages d).
                x = model_validate m \<and> message_user_id m = user_id u \<and>
                (\<forall>c. b = Some c \<and> c \<noteq> 0 \<longrightarrow> message_id m < c)) \<and>
           (list_has_more r \<longleftrightarrow>
              length (list_messages r) < length (candidates d (user_id u) b)) \<and>
           list_next_cursor r =
             (if list_has_more r then Some (resp_id (last (list_messages r))) else None)))"
proof (intro conjI impI)
  assume "limit < 1 \<or> limit > 100"
  then show "api_get_messages d u limit b =
      Inl (HTTPException 400 ''Limit must be between 1 and 100'')"
    by (simp add: api_get_messages_def)
next
  assume range: "1 \<le> limit \<and> limit \<le> 100"
  let ?l = "nat limit"
  let ?cs = "candidates d (user_id u) b"
  let ?rows = "take ?l (newest_first ?cs)"
  let ?r = "get_messages d (user_id u) ?l b"
  from range have l_pos: "0 < ?l" by simp
  have ret: "api_get_messages d u limit b = Inr ?r"
    using range by (simp add: api_get_messages_def)
  have items: "list_messages ?r = map model_validate ?rows"
    by (simp add: get_messages_unfold)
  have len: "length (list_messages ?r) \<le> ?l"
    by (simp add: items)
  have "sorted_wrt (\<lambda>a b. message_created_at a \<ge> message_created_at b) ?rows"
    using newest_first_sorted by (rule sorted_wrt_take)
  then have srt: "sorted_wrt (\<lambda>x y. resp_created_at x \<ge> resp_created_at y) (list_messages ?r)"
    by (simp add: items sorted_wrt_map model_validate_def)
  have mem: "\<forall>x \<in> set (list_messages ?r).
      \<exists>m \<in> set (messages d).
        x = model_validate m \<and> message_user_id m = user_id u \<and>
        (\<forall>c. b = Some c \<and> c \<noteq> 0 \<longrightarrow> message_id m < c)"
  proof
    fix x assume "x \<in> set (list_messages ?r)"
    then obtain m where x: "x = model_validate m" and "m \<in> set ?rows"
      by (auto simp: items)
    then have "m \<in> set ?cs"
      by (auto dest: in_set_takeD simp: newest_first_set)
    then have "m \<in> set (messages d) \<and> message_user_id m = user_id u \<and>
        (\<forall>c. b = Some c \<and> c \<noteq> 0 \<longrightarrow> message_id m < c)"
      by (auto simp: candidates_def)
    with x show "\<exists>m \<in> set (messages d).
        x = model_validate m \<and> message_user_id m = user_id u \<and>
        (\<forall>c. b = Some c \<and> c \<noteq> 0 \<longrightarrow> message_id m < c)" by blast
  qed
  have hm: "list_has_more ?r \<longleftrightarrow> ?l < length ?cs"
    by (simp add: get_messages_unfold)
  have hm': "list_has_more ?r \<longleftrightarrow> length (list_messages ?r) < length ?cs"
    by (auto simp: hm items newest_first_length min_def)
  have ne: "?rows \<noteq> []" if "list_has_more ?r"
  proof -
    from that have "?l < length (newest_first ?cs)" by (simp add: hm newest_first_length)
    with l_pos have "length ?rows = ?l" "0 < ?l" by simp_all
    then show ?thesis by auto
  qed
  have cur: "list_next_cursor ?r =
      (if list_has_more ?r then Some (resp_id (last (list_messages ?r))) else None)"
  proof (cases "list_has_more ?r")
    case True
    with ne have nonempty: "?rows \<noteq> []" by simp
    then have "resp_id (last (list_messages ?r)) = message_id (last ?rows)"
      by (simp add: items last_map model_validate_def)
    with True nonempty show ?thesis
      by (simp add: get_messages_unfold)
  next
    case False
    then show ?thesis by (simp add: get_messages_unfold)
  qed
  from ret items len srt mem hm' cur
  show "\<exists>r. api_get_messages d u limit b = Inr r \<and>
           list_messages r =
             map model_validate (take (nat limit) (newest_first (candidates d (user_id u) b))) \<and>
           length (list_messages r) \<le> nat limit \<and>
           sorted_wrt (\<lambda>x y. resp_created_at x \<ge> resp_created_at y) (list_messages r) \<and>
           (\<forall>x \<in> set (list_messages r).
              \<exists>m \<in> set (messages d).
                x = model_validate m \<and> message_user_id m = user_id u \<and>
                (\<forall>c. b = Some c \<and> c \<noteq> 0 \<longrightarrow> message_id m < c)) \<and>
           (list_has_more r \<longleftrightarrow>
              length (list_messages r) < length (candidates d (user_id u) b)) \<and>
           list_next_cursor r =
             (if list_has_more r then Some (resp_id (last (list_messages r))) else None)"
    by blast
qed

text \<open>
  C9 as stated fails: the order of a page is that of the creation times, not that of the
  ids. Where the message with id 2 carries an earlier time than the message with id 1,
  the page lists id 1 before id 2.
\<close>

theorem api_get_messages_counterexample:
  "api_get_messages skewed_db example_user 50 None =
     Inr (get_messages skewed_db 7 50 None) \<and>
   map resp_id (list_messages (get_messages skewed_db 7 50 None)) = [1, 2] \<and>
   \<not> ids_descending (get_messages skewed_db 7 50 None)"
  by code_simp

lemma example_page:
  "api_get_messages message_db example_user 2 (Some 5) =
     Inr \<lparr>list_messages =
            [\<lparr>resp_id = 4, resp_user_id = 7, resp_role = ''user'',
              resp_content = ''I have a headache'', resp_created_at = 13,
              resp_message_metadata = None\<rparr>,
             \<lparr>resp_id = 2, resp_user_id = 7, resp_role = ''assistant'',
              resp_content = ''Hello! How are you feeling today?'', resp_created_at = 11,
              resp_message_metadata = None\<rparr>],
          list_total = 3, list_has_more = True, list_next_cursor = Some 2\<rparr>"
  by code_simp

theorem api_get_messages_page_witness:
  "(1::int) \<le> 2 \<and> (2::int) \<le> 100 \<and>
   api_get_messages message_db example_user 2 (Some 5) =
     Inr \<lparr>list_messages =
            [\<lparr>resp_id = 4, resp_user_id = 7, resp_role = ''user'',
              resp_content = ''I have a headache'', resp_created_at = 13,
              resp_message_metadata = None\<rparr>,
             \<lparr>resp_id = 2, resp_user_id = 7, resp_role = ''assistant'',
              resp_content = ''Hello! How are you feeling today?'', resp_created_at = 11,
              resp_message_metadata = None\<rparr>],
          list_total = 3, list_has_more = True, list_next_cursor = Some 2\<rparr> \<and>
   length (candidates message_db (user_id example_user) (Some 5)) > 2 \<and>
   api_get_messages message_db example_user 0 None =
     Inl (HTTPException 400 ''Limit must be between 1 and 100'')"
proof -
  have range: "(1::int) \<le> 2 \<and> (2::int) \<le> 100" by simp
  note t = api_get_messages_page [of 2 message_db example_user "Some 5"]
  from t range obtain r where r: "api_get_messages message_db example_user 2 (Some 5) = Inr r"
    and more: "list_has_more r \<longleftrightarrow>
      length (list_messages r) < length (candidates message_db (user_id example_user) (Some 5))"
    by blast
  from r example_page have "list_has_more r" "length (list_messages r) = 2" by auto
  with more have cs: "length (candidates message_db (user_id example_user) (Some 5)) > 2"
    by simp
  have "(0::int) < 1 \<or> (0::int) > 100" by simp
  with api_get_messages_page [of 0 message_db example_user None]
  have bad: "api_get_messages message_db example_user 0 None =
     Inl (HTTPException 400 ''Limit must be between 1 and 100'')" by blast
  from range example_page cs bad show ?thesis by blast
qed

section \<open>The turn\<close>

lemma process_message_unfold:
  "process_message svc d u msg =
     (case generate_response svc (turn_history svc d u msg) (turn_prompt svc d u msg) of
        Inl e \<Rightarrow> (Inl e, turn_db svc d u msg, False)
      | Inr (response_content, md) \<Rightarrow>
          (case create_message svc (turn_db svc d u msg) (user_id u) ''assistant''
                  response_content 0
                  (Some (md\<lparr>md_protocols_used := Some (map summary_name (turn_protocols svc d u msg)),
                            md_memories_used := Some (length (turn_memories svc d u msg)),
                            md_is_onboarding := Some (\<not> onboarding_completed u)\<rparr>)) of
             (assistant_message, d3) \<Rightarrow>
               (if length (turn_history svc d u msg) mod 5 = 0 then
                  (case extract_and_store_memories svc d3 (user_id u)
                          (''User: '' @ msg @ ''\<newline>Assistant: '' @ response_content) of
                     (d4, pending) \<Rightarrow>
                       (Inr (turn_user_message svc d u msg, assistant_message), d4, pending))
                else (Inr (turn_user_message svc d u msg, assistant_message), d3, False))))"
  by (simp add: process_message_def turn_user_message_def turn_memories_def turn_db_def
      turn_protocols_def turn_prompt_def turn_history_def Let_def
      split: prod.splits sum.splits)

lemma create_message_fields:
  "messages (snd (create_message svc d uid r c t md)) =
     messages d @ [fst (create_message svc d uid r c t md)] \<and>
   message_role (fst (create_message svc d uid r c t md)) = r \<and>
   message_metadata (fst (create_message svc d uid r c t md)) = md \<and>
   memories (snd (create_message svc d uid r c t md)) = memories d \<and>
   typing_indicators (snd (create_message svc d uid r c t md)) = typing_indicators d"
  by (simp add: create_message_def utcnow_def Let_def)

lemma fold_touch_other_tables:
  "messages (fold (\<lambda>(i, m). touch i) sel d) = messages d \<and>
   typing_indicators (fold (\<lambda>(i, m). touch i) sel d) = typing_indicators d"
  by (induction sel arbitrary: d) (auto simp: touch_def utcnow_def)

lemma get_relevant_memories_other_tables:
  "messages (snd (get_relevant_memories d uid n)) = messages d \<and>
   typing_indicators (snd (get_relevant_memories d uid n)) = typing_indicators d"
  by (simp add: get_relevant_memories_def Let_def fold_touch_other_tables)

lemma turn_db_messages:
  "messages (turn_db svc d u msg) = messages d @ [turn_user_message svc d u msg] \<and>
   message_role (turn_user_message svc d u msg) = ''user''"
  by (simp add: turn_db_def turn_user_message_def get_relevant_memories_other_tables
      create_message_fields)

lemma write_typing_status_messages:
  "messages (write_typing_status d uid v) = messages d"
  by (simp add: write_typing_status_def utcnow_def split: option.splits)

lemma find_update_first:
  "(\<And>x. P x \<Longrightarrow> P (f x)) \<Longrightarrow> find P (update_first P f xs) = map_option f (find P xs)"
  by (induction xs) auto

lemma find_append_new: "find P xs = None \<Longrightarrow> P x \<Longrightarrow> find P (xs @ [x]) = Some x"
  by (induction xs) (auto split: if_splits)

lemma get_after_write_typing:
  "fst (get_typing_status (write_typing_status d uid v) uid) = v"
proof (cases "find (\<lambda>t. typing_user_id t = uid) (typing_indicators d)")
  case None
  then show ?thesis
    by (simp add: get_typing_status_def write_typing_status_def utcnow_def find_append_new)
next
  case (Some t)
  then show ?thesis
    by (simp add: get_typing_status_def write_typing_status_def utcnow_def find_update_first)
qed

lemma update_typing_status_usable:
  "update_typing_status False d uid v = Inr (write_typing_status d uid v)"
  by (simp add: update_typing_status_def)

lemma update_typing_status_pending:
  "update_typing_status True d uid v = Inl PendingRollbackError"
  by (simp add: update_typing_status_def)

lemma send_message_except_usable:
  "send_message_except e False d u =
     (Inl (Inr (HTTPException 500 (''Error processing message: '' @ str_error e))),
      write_typing_status d (user_id u) False)"
  by (simp add: send_message_except_def update_typing_status_usable)

lemma send_message_except_pending:
  "send_message_except e True d u = (Inl (Inl PendingRollbackError), d)"
  by (simp add: send_message_except_def update_typing_status_pending)

lemma send_message_except_raises: "\<exists>x. fst (send_message_except e pending d u) = Inl x"
  by (cases pending) (simp_all add: send_message_except_usable send_message_except_pending)

lemma send_message_unfold:
  "send_message svc d u msg =
     (case process_message svc (write_typing_status d (user_id u) True) u msg of
        (Inl e, d2, pending) \<Rightarrow> send_message_except e pending d2 u
      | (Inr (user_msg, assistant_msg), d2, pending) \<Rightarrow>
          (if pending then (Inl (Inl PendingRollbackError), d2)
           else
             (Inr \<lparr>chat_user_message = model_validate user_msg,
                   chat_assistant_message = model_validate assistant_msg,
                   chat_context_used =
                     \<lparr>context_protocols =
                        (case message_metadata assistant_msg of
                           None \<Rightarrow> []
                         | Some md \<Rightarrow> (case md_protocols_used md of None \<Rightarrow> [] | Some ns \<Rightarrow> ns)),
                      context_memories_count =
                        (case message_metadata assistant_msg of
                           None \<Rightarrow> 0
                         | Some md \<Rightarrow> (case md_memories_used md of None \<Rightarrow> 0 | Some n \<Rightarrow> n))\<rparr>\<rparr>,
              write_typing_status d2 (user_id u) False)))"
  by (simp add: send_message_def update_typing_status_def send_message_except_pending
      split: prod.splits sum.splits)

text \<open>When the generation call of the turn raises, the endpoint raises the exception of
  status 500 with the error's text, the indicator reads false afterwards, and the
  messages stored are those from before the turn followed by the user turn alone.\<close>

lemma send_message_generation_failure:
  assumes "turn_generation svc d u msg = Inl e"
  shows "fst (send_message svc d u msg) =
           Inl (Inr (HTTPException 500 (''Error processing message: '' @ str_error e))) \<and>
         fst (get_typing_status (snd (send_message svc d u msg)) (user_id u)) = False \<and>
         messages (snd (send_message svc d u msg)) =
           messages d @ [turn_user_message svc (write_typing_status d (user_id u) True) u msg]"
  using assms unfolding send_message_unfold process_message_unfold turn_generation_def Let_def
  by (simp add: send_message_except_usable get_after_write_typing write_typing_status_messages
      turn_db_messages)

lemma generate_response_provider_error:
  assumes "provider svc = ''openai'' \<or> provider svc = ''anthropic''"
    and "truncate_context svc msgs sp None = Inr tm"
    and "chat_api svc sp tm = Inl e"
  shows "generate_response svc msgs sp = Inl e"
  using assms by (auto simp: generate_response_def Let_def)

text \<open>When the turn does not leave the session in need of a rollback, the indicator
  reads false afterwards.\<close>

lemma send_message_clears_indicator:
  assumes "\<not> snd (snd (process_message svc (write_typing_status d (user_id u) True) u msg))"
  shows "fst (get_typing_status (snd (send_message svc d u msg)) (user_id u)) = False"
  using assms unfolding send_message_unfold
  by (auto simp: send_message_except_usable get_after_write_typing split: prod.splits sum.splits)

text \<open>
  C2 fails on the code. The turn below is the fifth message of the retrieved history, so
  the extraction runs; the provider's reply parses to one memory whose value is \<open>null\<close>.
  The commit inside \<open>create_memory\<close> raises, \<open>extract_and_store_memories\<close> swallows the
  exception without a rollback, and each of the two calls that should clear the indicator
  raises on the session. The endpoint ends with that exception instead of the exception
  of status 500, the indicator still reads true, and the assistant turn of the turn is
  stored after the user turn.
\<close>

theorem send_message_leaves_indicator_set:
  "fst (send_message null_value_service fifth_turn_db example_user ''I only sleep six hours'') =
     Inl (Inl PendingRollbackError) \<and>
   fst (get_typing_status
          (snd (send_message null_value_service fifth_turn_db example_user
                  ''I only sleep six hours''))
          (user_id example_user)) = True \<and>
   map message_role
     (drop (length (messages fifth_turn_db))
        (messages (snd (send_message null_value_service fifth_turn_db example_user
                          ''I only sleep six hours'')))) = [''user'', ''assistant'']"
  by code_simp

lemma memory_parts_take: "memory_parts (take 5 mems) = memory_parts mems"
  by (cases mems) (simp_all add: memory_parts_def)

lemma turn_memories_length: "length (turn_memories svc d u msg) \<le> 10"
  by (simp add: turn_memories_def get_relevant_memories_def query_memories_def Let_def)

lemma send_message_count:
  assumes "fst (send_message svc d u msg) = Inr r"
  shows "context_memories_count (chat_context_used r) =
           length (turn_memories svc (write_typing_status d (user_id u) True) u msg) \<and>
         (\<exists>md. resp_message_metadata (chat_assistant_message r) = Some md \<and>
               md_memories_used md =
                 Some (length (turn_memories svc (write_typing_status d (user_id u) True) u msg)))"
proof -
  let ?d1 = "write_typing_status d (user_id u) True"
  obtain res d2 pending where pm: "process_message svc ?d1 u msg = (res, d2, pending)"
    by (cases "process_message svc ?d1 u msg") auto
  have "\<exists>um am. res = Inr (um, am)"
  proof (cases res)
    case (Inl e)
    with assms pm have "fst (send_message_except e pending d2 u) = Inr r"
      unfolding send_message_unfold by simp
    with send_message_except_raises [of e pending d2 u] show ?thesis by auto
  next
    case (Inr p)
    then show ?thesis by (cases p) auto
  qed
  then obtain um am where res: "res = Inr (um, am)" by blast
  from pm res obtain rc md where
    gen: "generate_response svc (turn_history svc ?d1 u msg) (turn_prompt svc ?d1 u msg) =
            Inr (rc, md)"
    unfolding process_message_unfold by (auto split: sum.splits prod.splits if_splits)
  let ?md = "md\<lparr>md_protocols_used := Some (map summary_name (turn_protocols svc ?d1 u msg)),
                 md_memories_used := Some (length (turn_memories svc ?d1 u msg)),
                 md_is_onboarding := Some (\<not> onboarding_completed u)\<rparr>"
  let ?am = "fst (create_message svc (turn_db svc ?d1 u msg) (user_id u) ''assistant'' rc 0
                    (Some ?md))"
  have md_am: "message_metadata ?am = Some ?md" by (simp add: create_message_fields)
  from pm res gen have am: "am = ?am"
    unfolding process_message_unfold by (auto split: prod.splits if_splits)
  from assms pm res have "chat_assistant_message r = model_validate am \<and>
      context_memories_count (chat_context_used r) =
        (case message_metadata am of None \<Rightarrow> 0
         | Some md \<Rightarrow> (case md_memories_used md of None \<Rightarrow> 0 | Some n \<Rightarrow> n))"
    unfolding send_message_unfold by (auto split: if_splits)
  with md_am am show ?thesis by (simp add: model_validate_def)
qed

text \<open>
  C8, as the code has it. \<open>process_message\<close> asks the memory store for the top 10 facts of
  the user, the default limit of \<open>get_relevant_memories\<close>, so the list of facts retrieved
  for the turn has at most 10 entries. The count recorded in the metadata of the
  assistant turn and reported in the context-usage summary is the length of that list,
  so it is at most 10. The instruction text is built from the first 5 of the facts.
\<close>

theorem turn_memories_at_most_ten:
  "length (turn_memories svc d u msg) \<le> 10 \<and>
   turn_prompt svc d u msg =
     create_system_prompt (get_user_profile u) (take 5 (turn_memories svc d u msg))
       (turn_protocols svc d u msg) (\<not> onboarding_completed u) \<and>
   (\<forall>r. fst (send_message svc d u msg) = Inr r \<longrightarrow>
      context_memories_count (chat_context_used r) =
        length (turn_memories svc (write_typing_status d (user_id u) True) u msg) \<and>
      context_memories_count (chat_context_used r) \<le> 10 \<and>
      (\<exists>md. resp_message_metadata (chat_assistant_message r) = Some md \<and>
            md_memories_used md = Some (context_memories_count (chat_context_used r))))"
proof (intro conjI allI impI)
  show "length (turn_memories svc d u msg) \<le> 10" by (rule turn_memories_length)
  show "turn_prompt svc d u msg =
     create_system_prompt (get_user_profile u) (take 5 (turn_memories svc d u msg))
       (turn_protocols svc d u msg) (\<not> onboarding_completed u)"
    by (simp add: turn_prompt_def create_system_prompt_def memory_parts_take)
next
  fix r assume r: "fst (send_message svc d u msg) = Inr r"
  note c = send_message_count [OF r]
  from c show "context_memories_count (chat_context_used r) =
        length (turn_memories svc (write_typing_status d (user_id u) True) u msg)" by blast
  with turn_memories_length [of svc "write_typing_status d (user_id u) True" u msg]
  show "context_memories_count (chat_context_used r) \<le> 10" by simp
  from c show "\<exists>md. resp_message_metadata (chat_assistant_message r) = Some md \<and>
            md_memories_used md = Some (context_memories_count (chat_context_used r))"
    by auto
qed

text \<open>
  C8 as stated fails: for a user with six stored facts the turn retrieves all six and the
  response reports a count of six.
\<close>

theorem turn_memories_counterexample:
  "length (turn_memories demo_service six_db example_user ''Hi'') = 6 \<and>
   reported_memories_count (fst (send_message demo_service six_db example_user ''Hi'')) = Some 6"
  by code_simp

lemma example_count:
  "reported_memories_count (fst (send_message demo_service message_db example_user ''Hi'')) =
     Some 3"
  by code_simp

theorem turn_memories_at_most_ten_witness:
  "reported_memories_count (fst (send_message demo_service message_db example_user ''Hi'')) =
     Some 3 \<and>
   length (turn_memories demo_service
             (write_typing_status message_db (user_id example_user) True) example_user ''Hi'') = 3"
proof -
  from example_count obtain r where
    r: "fst (send_message demo_service message_db example_user ''Hi'') = Inr r"
    and n: "context_memories_count (chat_context_used r) = 3"
    by (auto simp: reported_memories_count_def split: sum.splits)
  from turn_memories_at_most_ten [of demo_service message_db example_user "''Hi''"] r
  have "context_memories_count (chat_context_used r) =
        length (turn_memories demo_service
             (write_typing_status message_db (user_id example_user) True) example_user ''Hi'')"
    by blast
  with n example_count show ?thesis by simp
qed

end
